theory Spec2Isabelle
  imports Main "HOL-Library.Sublist" "HOL-Library.AList"
begin

section \<open>Python values\<close>

text \<open>
  The views of \<^verbatim>\<open>database_tool/views.py\<close> pass around dynamically typed values: form
  fields are strings, integers or \<^verbatim>\<open>None\<close>, and so are the cells of a query result.
\<close>

datatype pyval = PNone | PInt int | PStr string

text \<open>Truthiness, as tested by \<^verbatim>\<open>if query:\<close> and \<^verbatim>\<open>... and table_name\<close>.\<close>

fun truthy :: "pyval \<Rightarrow> bool" where
  "truthy PNone = False"
| "truthy (PInt i) = (i \<noteq> 0)"
| "truthy (PStr s) = (s \<noteq> [])"

text \<open>\<^verbatim>\<open>str\<close> of an integer is its decimal numeral, with a leading minus sign.\<close>

definition digit_char :: "nat \<Rightarrow> char" where
  "digit_char d = char_of (48 + d)"

fun str_of_nat :: "nat \<Rightarrow> string" where
  "str_of_nat n = (if n < 10 then [digit_char n] else str_of_nat (n div 10) @ [digit_char (n mod 10)])"

declare str_of_nat.simps [simp del]

definition str_of_int :: "int \<Rightarrow> string" where
  "str_of_int i = (if i < 0 then CHR ''-'' # str_of_nat (nat (- i)) else str_of_nat (nat i))"

text \<open>Reading a decimal numeral back, to say what the digits of \<open>str_of_nat\<close> mean.\<close>

definition decimal_value :: "string \<Rightarrow> nat" where
  "decimal_value ds = foldl (\<lambda>a c. 10 * a + (of_char c - 48)) 0 ds"

text \<open>What an f-string writes for \<^verbatim>\<open>{v}\<close>.\<close>

fun py_str :: "pyval \<Rightarrow> string" where
  "py_str PNone = ''None''"
| "py_str (PInt i) = str_of_int i"
| "py_str (PStr s) = s"

text \<open>
  A dictionary is an association list; \<^verbatim>\<open>d.get(k)\<close> gives \<^verbatim>\<open>None\<close> for a missing key and
  \<^verbatim>\<open>d.get(k, default)\<close> the default.
\<close>

type_synonym pydict = "(string \<times> pyval) list"

definition dict_get :: "pydict \<Rightarrow> string \<Rightarrow> pyval" where
  "dict_get d k = (case map_of d k of None \<Rightarrow> PNone | Some v \<Rightarrow> v)"

definition dict_get_default :: "pydict \<Rightarrow> string \<Rightarrow> pyval \<Rightarrow> pyval" where
  "dict_get_default d k dflt = (case map_of d k of None \<Rightarrow> dflt | Some v \<Rightarrow> v)"

section \<open>The canned queries of \<^verbatim>\<open>query_table\<close>\<close>

definition dquote :: char where
  "dquote = CHR 0x22"

definition backtick :: char where
  "backtick = CHR 0x60"

text \<open>
  Lines 161 to 186 of \<^verbatim>\<open>query_table\<close>: the local \<^verbatim>\<open>query\<close> starts as \<^verbatim>\<open>None\<close> and is
  assigned by the branch that matches the form's \<^verbatim>\<open>query_type\<close>. Every database type other
  than \<^verbatim>\<open>sqlite\<close> and \<^verbatim>\<open>postgresql\<close> takes the \<^verbatim>\<open>mysql\<close> branch.
\<close>

definition build_query :: "string \<Rightarrow> pydict \<Rightarrow> pyval \<Rightarrow> pyval \<Rightarrow> pyval" where
  "build_query db_type cleaned_data query_type table_name =
     (if query_type = PStr ''all'' \<and> truthy table_name then
        (if db_type = ''sqlite'' then
           PStr (''SELECT * FROM ['' @ py_str table_name @ '']'')
         else if db_type = ''postgresql'' then
           PStr (''SELECT * FROM '' @ [dquote] @ py_str table_name @ [dquote])
         else
           PStr (''SELECT * FROM '' @ [backtick] @ py_str table_name @ [backtick]))
      else if query_type = PStr ''limit'' \<and> truthy table_name then
        (let limit = dict_get_default cleaned_data ''limit_rows'' (PInt 1000);
             offset = dict_get_default cleaned_data ''offset_rows'' (PInt 0)
         in if db_type = ''sqlite'' then
              PStr (''SELECT * FROM ['' @ py_str table_name @ ''] LIMIT '' @ py_str limit
                    @ '' OFFSET '' @ py_str offset)
            else if db_type = ''postgresql'' then
              PStr (''SELECT * FROM '' @ [dquote] @ py_str table_name @ [dquote] @ '' LIMIT ''
                    @ py_str limit @ '' OFFSET '' @ py_str offset)
            else
              PStr (''SELECT * FROM '' @ [backtick] @ py_str table_name @ [backtick] @ '' LIMIT ''
                    @ py_str limit @ '' OFFSET '' @ py_str offset))
      else if query_type = PStr ''custom'' then
        dict_get cleaned_data ''custom_query''
      else PNone)"

section \<open>Exceptions\<close>

text \<open>
  An exception is its class and its message; \<^verbatim>\<open>str(e)\<close> is the message. Every class below
  derives from \<^verbatim>\<open>Exception\<close>, so \<^verbatim>\<open>except Exception\<close> catches all of them, and
  \<^verbatim>\<open>UnboundLocalError\<close> derives from \<^verbatim>\<open>NameError\<close>.
\<close>

datatype exn_class =
  Exception | TypeError | AttributeError | NameError | UnboundLocalError | KeyError | Http404
  | ValueError | ExecutionError | SchemaError | ConfigurationError

datatype exn = Raised exn_class string

fun exn_class_of :: "exn \<Rightarrow> exn_class" where
  "exn_class_of (Raised c m) = c"

fun exn_str :: "exn \<Rightarrow> string" where
  "exn_str (Raised c m) = m"

fun is_subclass :: "exn_class \<Rightarrow> exn_class \<Rightarrow> bool" where
  "is_subclass c Exception = True"
| "is_subclass UnboundLocalError NameError = True"
| "is_subclass c d = (c = d)"

definition isinstance :: "exn \<Rightarrow> exn_class \<Rightarrow> bool" where
  "isinstance e c = is_subclass (exn_class_of e) c"

section \<open>Models, results and the request\<close>

text \<open>
  Every view is decorated with \<^verbatim>\<open>@login_required\<close>, which hands a request to the view only
  when its user is logged in. The model describes the views on the requests that reach them,
  so a user is an account name.
\<close>

type_synonym user = string

text \<open>The fields of \<^verbatim>\<open>DatabaseConnection\<close> and \<^verbatim>\<open>QueryHistory\<close> that the views read or write.\<close>

record db_connection =
  conn_id :: int
  conn_user :: user
  conn_name :: string
  db_type :: string

record query_history =
  qh_user :: user
  qh_connection :: int
  qh_query :: pyval
  qh_success :: bool
  qh_error_message :: "string option"

text \<open>A result table (a pandas \<^verbatim>\<open>DataFrame\<close>): its column labels and its rows, in order.\<close>

record dataframe =
  df_columns :: "string list"
  df_rows :: "pyval list list"

record table_info =
  ti_columns :: "(string \<times> string) list"
  ti_row_count :: nat

text \<open>
  \<^verbatim>\<open>df.head(n)\<close> keeps the first \<^verbatim>\<open>n\<close> rows; \<^verbatim>\<open>df.to_dict('records')\<close> gives one
  dictionary per row, filled column by column, so that a repeated label keeps its first
  position and its last value; \<^verbatim>\<open>len(df)\<close> counts the rows.
\<close>

definition df_head :: "nat \<Rightarrow> dataframe \<Rightarrow> dataframe" where
  "df_head n df = df\<lparr>df_rows := take n (df_rows df)\<rparr>"

definition df_len :: "dataframe \<Rightarrow> nat" where
  "df_len df = length (df_rows df)"

fun dict_of_pairs :: "pydict \<Rightarrow> (string \<times> pyval) list \<Rightarrow> pydict" where
  "dict_of_pairs d [] = d"
| "dict_of_pairs d ((k, v) # kvs) = dict_of_pairs (AList.update k v d) kvs"

definition row_record :: "string list \<Rightarrow> pyval list \<Rightarrow> pydict" where
  "row_record cols row = dict_of_pairs [] (zip cols row)"

definition to_dict_records :: "dataframe \<Rightarrow> pydict list" where
  "to_dict_records df = map (row_record (df_columns df)) (df_rows df)"

record result_data =
  rd_columns :: "string list"
  rd_data :: "pydict list"
  rd_total_rows :: nat
  rd_display_rows :: nat

text \<open>Lines 206 to 211: what \<^verbatim>\<open>query_table\<close> hands to the result template.\<close>

definition make_result_data :: "dataframe \<Rightarrow> result_data" where
  "make_result_data result_df =
     \<lparr>rd_columns = df_columns result_df,
      rd_data = to_dict_records (df_head 100 result_df),
      rd_total_rows = df_len result_df,
      rd_display_rows = min (df_len result_df) 100\<rparr>"

text \<open>
  The JSON document that \<^verbatim>\<open>DataFrame.to_json()\<close> writes for a table: an object with one
  member per column, each an object from the row labels to the cells, which are
  \<^verbatim>\<open>null\<close>, numbers or strings. The model keeps the document and not its characters.
\<close>

datatype scalar = JNull | JNumber int | JString string

type_synonym json_column = "(string \<times> scalar) list"

type_synonym json_doc = "(string \<times> json_column) list"

text \<open>What line 214 keeps in the session, under the key of the connection.\<close>

record session_entry =
  se_query :: pyval
  se_data :: json_doc
  se_connection_name :: string

datatype level = Success | Error

text \<open>
  The calls made on connectors, in the order they happen. The number is the connector
  instance: each call of \<^verbatim>\<open>create_database_connector\<close> makes a new one.
\<close>

datatype event =
  Create nat
  | Connect nat
  | Disconnect nat
  | GetTables nat
  | GetTableInfo nat string
  | GetTableData nat string int
  | Validate nat pyval
  | Execute nat pyval

text \<open>
  What a view can change: the two tables, the session, the flash messages; and the log of
  connector calls.
\<close>

record state =
  connections :: "db_connection list"
  history :: "query_history list"
  session :: "(string \<times> session_entry) list"
  messages :: "(level \<times> string) list"
  trace :: "event list"

text \<open>
  A request: its method, its user, and what the bound form of the view makes of the posted
  data (\<^verbatim>\<open>forms.py\<close> is not part of the sources, so validity, \<^verbatim>\<open>cleaned_data\<close>, its
  \<^verbatim>\<open>str\<close> and the instance built by \<^verbatim>\<open>form.save(commit=False)\<close> are given).
\<close>

record request =
  req_method :: string
  req_user :: user
  form_valid :: bool
  cleaned_data :: pydict
  cleaned_data_str :: string
  form_instance :: db_connection

text \<open>
  The behaviour of \<^verbatim>\<open>database_connectors\<close>, which is not part of the sources: each
  operation either returns or raises. \<^verbatim>\<open>validate_query\<close> returns its verdict as a pair and
  \<^verbatim>\<open>disconnect\<close> does not raise (sections 4.1 and 7 of the specification).
  \<^verbatim>\<open>df_to_json\<close> is \<^verbatim>\<open>DataFrame.to_json\<close> of pandas, which returns the text or raises
  (\<^verbatim>\<open>ValueError\<close> when two columns have the same label), and \<^verbatim>\<open>df_read_json\<close> is
  \<^verbatim>\<open>pandas.read_json\<close>.
\<close>

record connector_env =
  on_create :: "nat \<Rightarrow> exn option"
  on_connect :: "nat \<Rightarrow> exn + bool"
  on_get_tables :: "nat \<Rightarrow> exn + string list"
  on_get_table_info :: "nat \<Rightarrow> string \<Rightarrow> exn + table_info"
  on_get_table_data :: "nat \<Rightarrow> string \<Rightarrow> int \<Rightarrow> exn + dataframe"
  on_validate_query :: "pyval \<Rightarrow> bool \<times> string"
  on_execute_query :: "nat \<Rightarrow> pyval \<Rightarrow> exn + dataframe"
  on_test_connection :: "db_connection \<Rightarrow> exn + (bool \<times> string)"
  df_to_json :: "dataframe \<Rightarrow> exn + json_doc"
  df_read_json :: "json_doc \<Rightarrow> exn + dataframe"

text \<open>
  A response. A downloaded file is the table written to it: \<^verbatim>\<open>to_csv(index=False)\<close> and
  \<^verbatim>\<open>to_excel(index=False)\<close> write the column labels and then the rows, in order, without
  the row labels; the file has a name, and the spreadsheet a sheet name.
\<close>

datatype response =
  RenderQueryResult db_connection result_data pyval bool
  | RenderQueryForm db_connection "string list"
  | RenderTableDetail db_connection string table_info dataframe
  | RenderEditConnection db_connection
  | CsvFile string "string list" "pyval list list"
  | ExcelFile string string "string list" "pyval list list"
  | Redirect string "int list"
  | NotAllowed
  | ReturnsNone

type_synonym outcome = "(exn + response) \<times> state"

definition log :: "event \<Rightarrow> state \<Rightarrow> state" where
  "log e s = s\<lparr>trace := trace s @ [e]\<rparr>"

definition add_message :: "level \<Rightarrow> string \<Rightarrow> state \<Rightarrow> state" where
  "add_message l m s = s\<lparr>messages := messages s @ [(l, m)]\<rparr>"

text \<open>\<^verbatim>\<open>get_object_or_404(DatabaseConnection, id=connection_id, user=request.user)\<close>.\<close>

definition get_object_or_404 :: "state \<Rightarrow> int \<Rightarrow> user \<Rightarrow> exn + db_connection" where
  "get_object_or_404 s connection_id u =
     (case find (\<lambda>c. conn_id c = connection_id \<and> conn_user c = u) (connections s) of
        None \<Rightarrow> Inl (Raised Http404 ''No DatabaseConnection matches the given query.'')
      | Some c \<Rightarrow> Inr c)"

text \<open>The decorator \<^verbatim>\<open>@require_http_methods\<close>.\<close>

definition require_http_methods ::
    "string list \<Rightarrow> (request \<Rightarrow> state \<Rightarrow> outcome) \<Rightarrow> request \<Rightarrow> state \<Rightarrow> outcome" where
  "require_http_methods ms view req s =
     (if req_method req \<in> set ms then view req s else (Inr NotAllowed, s))"

section \<open>\<^verbatim>\<open>query_table\<close>\<close>

text \<open>
  The handler of lines 235 to 245. \<^verbatim>\<open>query_local\<close> is the local variable \<^verbatim>\<open>query\<close>:
  \<open>None\<close> while it has not been assigned (\<^verbatim>\<open>'query' in locals()\<close> is false), \<open>Some v\<close>
  afterwards.
\<close>

definition query_failed :: "request \<Rightarrow> db_connection \<Rightarrow> pyval option \<Rightarrow> exn \<Rightarrow> state \<Rightarrow> state" where
  "query_failed req connection query_local e s =
     add_message Error (''Query failed: '' @ exn_str e)
       (case query_local of
          None \<Rightarrow> s
        | Some query \<Rightarrow>
            s\<lparr>history := history s @
               [\<lparr>qh_user = req_user req, qh_connection = conn_id connection,
                 qh_query = (if truthy query then query else PStr (cleaned_data_str req)),
                 qh_success = False, qh_error_message = Some (exn_str e)\<rparr>]\<rparr>)"

text \<open>
  Lines 194 to 229: run the query, write the history record, build the preview, keep the full
  result in the session, disconnect and render. All of it is inside the \<^verbatim>\<open>try\<close>, so an
  exception of \<^verbatim>\<open>to_json\<close> at line 216 reaches the handler of line 235 like one of
  \<^verbatim>\<open>execute_query\<close>. The result is \<open>Some\<close> response when the view returns from inside the
  \<^verbatim>\<open>try\<close>, and \<open>None\<close> when control goes on to line 249.
\<close>

definition execute_validated ::
    "connector_env \<Rightarrow> request \<Rightarrow> db_connection \<Rightarrow> int \<Rightarrow> pyval \<Rightarrow> state \<Rightarrow> response option \<times> state" where
  "execute_validated env req connection connection_id query s =
     (case on_execute_query env 0 query of
        Inl e \<Rightarrow> (None, query_failed req connection (Some query) e (log (Execute 0 query) s))
      | Inr result_df \<Rightarrow>
          (let s1 = log (Execute 0 query) s;
               s2 = s1\<lparr>history := history s1 @
                      [\<lparr>qh_user = req_user req, qh_connection = conn_id connection,
                        qh_query = query, qh_success = True, qh_error_message = None\<rparr>]\<rparr>;
               result = make_result_data result_df
           in case df_to_json env result_df of
                Inl e \<Rightarrow> (None, query_failed req connection (Some query) e s2)
              | Inr json \<Rightarrow>
                  (let s3 = s2\<lparr>session :=
                         AList.update (''query_result_'' @ str_of_int connection_id)
                           \<lparr>se_query = query, se_data = json,
                            se_connection_name = conn_name connection\<rparr> (session s2)\<rparr>;
                       s4 = log (Disconnect 0) s3
                   in (Some (RenderQueryResult connection result query True), s4))))"

text \<open>Lines 188 to 231: the validation gate.\<close>

definition run_built_query ::
    "connector_env \<Rightarrow> request \<Rightarrow> db_connection \<Rightarrow> int \<Rightarrow> pyval \<Rightarrow> state \<Rightarrow> response option \<times> state" where
  "run_built_query env req connection connection_id query s =
     (if truthy query then
        (let is_valid = fst (on_validate_query env query);
             message = snd (on_validate_query env query);
             s1 = log (Validate 0 query) s
         in if \<not> is_valid then
              (None, query_failed req connection (Some query) (Raised Exception message) s1)
            else execute_validated env req connection connection_id query s1)
      else (None, add_message Error ''No valid query to execute'' s))"

text \<open>Lines 158 to 245: the \<^verbatim>\<open>try\<close> block and its handler.\<close>

definition run_query ::
    "connector_env \<Rightarrow> request \<Rightarrow> db_connection \<Rightarrow> int \<Rightarrow> pyval \<Rightarrow> pyval \<Rightarrow> state
       \<Rightarrow> response option \<times> state" where
  "run_query env req connection connection_id query_type table_name s =
     (case on_create env 0 of
        Some e \<Rightarrow> (None, query_failed req connection None e (log (Create 0) s))
      | None \<Rightarrow>
          (case on_connect env 0 of
             Inl e \<Rightarrow>
               (None, query_failed req connection None e (log (Connect 0) (log (Create 0) s)))
           | Inr ok \<Rightarrow>
               (let s1 = log (Connect 0) (log (Create 0) s)
                in if ok then
                     run_built_query env req connection connection_id
                       (build_query (db_type connection) (cleaned_data req) query_type table_name) s1
                   else
                     (None, query_failed req connection None
                              (Raised Exception ''Could not connect to database'') s1))))"

text \<open>
  Lines 249 to 257: a second connector reads the table names for the dropdown; whatever it
  raises is swallowed and leaves the list empty.
\<close>

definition load_tables :: "connector_env \<Rightarrow> state \<Rightarrow> string list \<times> state" where
  "load_tables env s =
     (case on_create env 1 of
        Some e \<Rightarrow> ([], log (Create 1) s)
      | None \<Rightarrow>
          (case on_connect env 1 of
             Inl e \<Rightarrow> ([], log (Connect 1) (log (Create 1) s))
           | Inr ok \<Rightarrow>
               (let s1 = log (Connect 1) (log (Create 1) s)
                in if ok then
                     (case on_get_tables env 1 of
                        Inl e \<Rightarrow> ([], log (GetTables 1) s1)
                      | Inr tables \<Rightarrow> (tables, log (Disconnect 1) (log (GetTables 1) s1)))
                   else ([], log (Disconnect 1) s1))))"

definition query_form :: "connector_env \<Rightarrow> db_connection \<Rightarrow> state \<Rightarrow> outcome" where
  "query_form env connection s =
     (Inr (RenderQueryForm connection (fst (load_tables env s))), snd (load_tables env s))"

definition query_table_body :: "connector_env \<Rightarrow> int \<Rightarrow> request \<Rightarrow> state \<Rightarrow> outcome" where
  "query_table_body env connection_id req s =
     (case get_object_or_404 s connection_id (req_user req) of
        Inl e \<Rightarrow> (Inl e, s)
      | Inr connection \<Rightarrow>
          (if req_method req = ''POST'' then
             (if form_valid req then
                (case map_of (cleaned_data req) ''query_type'' of
                   None \<Rightarrow> (Inl (Raised KeyError ([CHR 0x27] @ ''query_type'' @ [CHR 0x27])), s)
                 | Some query_type \<Rightarrow>
                     (case run_query env req connection connection_id query_type
                             (dict_get (cleaned_data req) ''table_name'') s of
                        (Some resp, s1) \<Rightarrow> (Inr resp, s1)
                      | (None, s1) \<Rightarrow> query_form env connection s1))
              else query_form env connection s)
           else query_form env connection s))"

definition query_table :: "connector_env \<Rightarrow> int \<Rightarrow> request \<Rightarrow> state \<Rightarrow> outcome" where
  "query_table env connection_id =
     require_http_methods [''GET'', ''POST''] (query_table_body env connection_id)"

section \<open>\<^verbatim>\<open>table_detail\<close>\<close>

definition table_detail_failed :: "int \<Rightarrow> exn \<Rightarrow> state \<Rightarrow> outcome" where
  "table_detail_failed connection_id e s =
     (Inr (Redirect ''connection_detail'' [connection_id]),
      add_message Error (''Error fetching table details: '' @ exn_str e) s)"

definition table_detail :: "connector_env \<Rightarrow> int \<Rightarrow> string \<Rightarrow> request \<Rightarrow> state \<Rightarrow> outcome" where
  "table_detail env connection_id table_name req s =
     (case get_object_or_404 s connection_id (req_user req) of
        Inl e \<Rightarrow> (Inl e, s)
      | Inr connection \<Rightarrow>
          (case on_create env 0 of
             Some e \<Rightarrow> table_detail_failed connection_id e (log (Create 0) s)
           | None \<Rightarrow>
               (case on_connect env 0 of
                  Inl e \<Rightarrow> table_detail_failed connection_id e (log (Connect 0) (log (Create 0) s))
                | Inr ok \<Rightarrow>
                    (let s1 = log (Connect 0) (log (Create 0) s)
                     in if ok then
                          (case on_get_table_info env 0 table_name of
                             Inl e \<Rightarrow>
                               table_detail_failed connection_id e
                                 (log (GetTableInfo 0 table_name) s1)
                           | Inr info \<Rightarrow>
                               (let s2 = log (GetTableData 0 table_name 10)
                                           (log (GetTableInfo 0 table_name) s1)
                                in case on_get_table_data env 0 table_name 10 of
                                     Inl e \<Rightarrow> table_detail_failed connection_id e s2
                                   | Inr sample_data \<Rightarrow>
                                       (Inr (RenderTableDetail connection table_name info sample_data),
                                        log (Disconnect 0) s2)))
                        else
                          (Inr (Redirect ''connection_detail'' [connection_id]),
                           add_message Error ''Could not connect to database'' s1)))))"

section \<open>\<^verbatim>\<open>download_query_result\<close>\<close>

text \<open>
  Lines 270 to 310. \<^verbatim>\<open>post\<close> is \<^verbatim>\<open>request.POST\<close>. The view reads the entry that
  \<^verbatim>\<open>query_table\<close> stored under the key of the connection, turns its data back into a table
  with \<^verbatim>\<open>read_json\<close> and writes the table, without the row labels, to a spreadsheet or to a
  CSV file named after the connection. Without an entry, or when \<^verbatim>\<open>read_json\<close> raises, it
  reports the error and redirects, as it does for every request that is not a \<^verbatim>\<open>POST\<close>.
\<close>

definition download_query_result ::
    "connector_env \<Rightarrow> int \<Rightarrow> pydict \<Rightarrow> request \<Rightarrow> state \<Rightarrow> outcome" where
  "download_query_result env connection_id post req s =
     (if req_method req = ''POST'' then
        (let format_type = dict_get_default post ''format'' (PStr ''csv'');
             session_key = ''query_result_'' @ str_of_int connection_id
         in case map_of (session s) session_key of
              None \<Rightarrow>
                (Inr (Redirect ''query_table'' [connection_id]),
                 add_message Error ''No query result found. Please run a query first.'' s)
            | Some result_data \<Rightarrow>
                (case df_read_json env (se_data result_data) of
                   Inl e \<Rightarrow>
                     (Inr (Redirect ''query_table'' [connection_id]),
                      add_message Error (''Download failed: '' @ exn_str e) s)
                 | Inr result_df \<Rightarrow>
                     (if format_type = PStr ''excel'' then
                        (Inr (ExcelFile (se_connection_name result_data @ ''_query_result.xlsx'')
                                ''Query Result'' (df_columns result_df) (df_rows result_df)), s)
                      else
                        (Inr (CsvFile (se_connection_name result_data @ ''_query_result.csv'')
                                (df_columns result_df) (df_rows result_df)), s))))
      else (Inr (Redirect ''query_table'' [connection_id]), s))"

section \<open>The name \<^verbatim>\<open>test_connection\<close>\<close>

text \<open>
  The module binds the name \<^verbatim>\<open>test_connection\<close> twice: line 17 imports it from
  \<^verbatim>\<open>database_connectors\<close>, and the \<^verbatim>\<open>def\<close> of line 76 binds it again, to the decorated
  view. A name is looked up when the call runs, after the module has been loaded, so the last
  binding is the one every call sees.
\<close>

datatype binding = ImportedFrom string | DefinedAt nat

definition module_bindings :: "(string \<times> binding) list" where
  "module_bindings =
     [(''create_database_connector'', ImportedFrom ''database_connectors''),
      (''test_connection'', ImportedFrom ''database_connectors''),
      (''dashboard'', DefinedAt 20),
      (''add_connection'', DefinedAt 38),
      (''delete_connection'', DefinedAt 63),
      (''test_connection'', DefinedAt 76),
      (''connection_detail'', DefinedAt 92),
      (''table_detail'', DefinedAt 118),
      (''query_table'', DefinedAt 148),
      (''download_query_result'', DefinedAt 271),
      (''edit_connection'', DefinedAt 408)]"

definition lookup_global :: "string \<Rightarrow> binding option" where
  "lookup_global name = map_of (rev module_bindings) name"

text \<open>
  The view of line 76 takes \<^verbatim>\<open>(request, connection_id)\<close>. Called with the connection as its
  only argument, the wrapper of \<^verbatim>\<open>login_required\<close> reads \<^verbatim>\<open>connection.user\<close>, a stored
  user and so an authenticated one, and calls the view with one argument.
\<close>

definition missing_argument :: string where
  "missing_argument =
     ''test_connection() missing 1 required positional argument: '' @ [CHR 0x27]
       @ ''connection_id'' @ [CHR 0x27]"

definition call_test_connection :: "connector_env \<Rightarrow> db_connection \<Rightarrow> exn + (bool \<times> string)" where
  "call_test_connection env connection =
     (case lookup_global ''test_connection'' of
        Some (ImportedFrom m) \<Rightarrow> on_test_connection env connection
      | Some (DefinedAt l) \<Rightarrow> Inl (Raised TypeError missing_argument)
      | None \<Rightarrow>
          Inl (Raised NameError (''name '' @ [CHR 0x27] @ ''test_connection'' @ [CHR 0x27]
                 @ '' is not defined'')))"

text \<open>Lines 80 to 87, the same in the three views: test, then report.\<close>

definition test_connection :: "connector_env \<Rightarrow> int \<Rightarrow> request \<Rightarrow> state \<Rightarrow> outcome" where
  "test_connection env connection_id req s =
     (case get_object_or_404 s connection_id (req_user req) of
        Inl e \<Rightarrow> (Inl e, s)
      | Inr connection \<Rightarrow>
          (Inr (Redirect ''connection_detail'' [connection_id]),
           (case call_test_connection env connection of
              Inl e \<Rightarrow> add_message Error (''Error testing connection: '' @ exn_str e) s
            | Inr (success, message) \<Rightarrow>
                (if success then
                   add_message Success (''Connection test successful: '' @ message) s
                 else add_message Error (''Connection test failed: '' @ message) s))))"

section \<open>\<^verbatim>\<open>add_connection\<close> and \<^verbatim>\<open>edit_connection\<close>\<close>

text \<open>
  The local variable \<^verbatim>\<open>connection\<close> of \<^verbatim>\<open>add_connection\<close> is assigned at line 43 only.
  Reading it while it is unassigned raises \<^verbatim>\<open>UnboundLocalError\<close>; nothing in the view
  catches it at lines 58 and 60.
\<close>

definition unbound_local :: "string \<Rightarrow> exn" where
  "unbound_local name =
     Raised UnboundLocalError
       (''cannot access local variable '' @ [CHR 0x27] @ name @ [CHR 0x27]
          @ '' where it is not associated with a value'')"

definition render_edit_connection :: "db_connection option \<Rightarrow> state \<Rightarrow> outcome" where
  "render_edit_connection connection_local s =
     (case connection_local of
        None \<Rightarrow> (Inl (unbound_local ''connection''), s)
      | Some connection \<Rightarrow> (Inr (RenderEditConnection connection), s))"

definition add_connection :: "connector_env \<Rightarrow> request \<Rightarrow> state \<Rightarrow> outcome" where
  "add_connection env req s =
     (if req_method req = ''POST'' then
        (if form_valid req then
           (let connection = (form_instance req)\<lparr>conn_user := req_user req\<rparr>
            in case call_test_connection env connection of
                 Inl e \<Rightarrow>
                   render_edit_connection (Some connection)
                     (add_message Error (''Error testing connection: '' @ exn_str e) s)
               | Inr (success, message) \<Rightarrow>
                   (if success then
                      (Inr (Redirect ''dashboard'' []),
                       add_message Success
                         (''Database connection '' @ [dquote] @ conn_name connection @ [dquote]
                            @ '' added successfully!'')
                         (s\<lparr>connections := connections s @ [connection]\<rparr>))
                    else
                      render_edit_connection (Some connection)
                        (add_message Error (''Connection test failed: '' @ message) s)))
         else render_edit_connection None s)
      else render_edit_connection None s)"

text \<open>
  \<^verbatim>\<open>edit_connection\<close>, as far as the source file goes (it ends with the handler of line 426):
  the paths that do not redirect return \<^verbatim>\<open>None\<close>. The edited instance keeps the id and the
  user of the stored connection, and saving it replaces the stored row.
\<close>

definition save_connection :: "db_connection \<Rightarrow> state \<Rightarrow> state" where
  "save_connection connection s =
     s\<lparr>connections :=
         map (\<lambda>c. if conn_id c = conn_id connection then connection else c) (connections s)\<rparr>"

definition edit_connection :: "connector_env \<Rightarrow> int \<Rightarrow> request \<Rightarrow> state \<Rightarrow> outcome" where
  "edit_connection env connection_id req s =
     (case get_object_or_404 s connection_id (req_user req) of
        Inl e \<Rightarrow> (Inl e, s)
      | Inr stored \<Rightarrow>
          (if req_method req = ''POST'' then
             (if form_valid req then
                (let connection =
                       (form_instance req)\<lparr>conn_id := conn_id stored, conn_user := conn_user stored\<rparr>
                 in case call_test_connection env connection of
                      Inl e \<Rightarrow>
                        (Inr ReturnsNone,
                         add_message Error (''Error testing connection: '' @ exn_str e) s)
                    | Inr (success, message) \<Rightarrow>
                        (if success then
                           (Inr (Redirect ''connection_detail'' [conn_id connection]),
                            add_message Success
                              (''Connection '' @ [dquote] @ conn_name connection @ [dquote]
                                 @ '' updated successfully!'')
                              (save_connection connection s))
                         else
                           (Inr ReturnsNone,
                            add_message Error (''Connection test failed: '' @ message) s)))
              else (Inr ReturnsNone, s))
           else (Inr ReturnsNone, s)))"

section \<open>The safety check of free-form SQL\<close>

text \<open>
  Modelled from the spec: the whitespace that section 4.3 speaks of ("empty/whitespace-only
  input", "further non-whitespace content"); the check itself is in \<^verbatim>\<open>database_connectors\<close>,
  which is not part of the sources.
\<close>

definition is_space :: "char \<Rightarrow> bool" where
  "is_space c = (c \<in> set [CHR '' '', CHR 0x09, CHR 0x0A, CHR 0x0B, CHR 0x0C, CHR 0x0D])"

text \<open>
  Modelled from the spec: the "normalized leading keyword" of section 4.3, compared without
  regard to case: the first word of the statement, in upper case.
\<close>

definition upper_char :: "char \<Rightarrow> char" where
  "upper_char c =
     (if 97 \<le> (of_char c :: nat) \<and> (of_char c :: nat) \<le> 122 then char_of (of_char c - 32 :: nat)
      else c)"

definition leading_keyword :: "string \<Rightarrow> string" where
  "leading_keyword sql =
     map upper_char (takeWhile (\<lambda>c. \<not> is_space c) (dropWhile is_space sql))"

text \<open>
  Modelled from the spec: "a statement separator (\<^verbatim>\<open>;\<close>) followed by further non-whitespace
  content" (section 4.3).
\<close>

definition multiple_statements :: "string \<Rightarrow> bool" where
  "multiple_statements sql =
     (case dropWhile (\<lambda>c. c \<noteq> CHR '';'') sql of
        [] \<Rightarrow> False
      | c # rest \<Rightarrow> \<not> list_all is_space rest)"

text \<open>
  Modelled from the spec: \<^verbatim>\<open>validate_query\<close> of \<^verbatim>\<open>database_connectors\<close>, which is not part
  of the sources. Section 4.3 of the specification gives its policy, in this order: an empty
  or whitespace-only statement is invalid with the message \<^verbatim>\<open>empty query\<close>; a statement
  whose normalized leading keyword is not \<^verbatim>\<open>SELECT\<close> is invalid with a message naming the
  forbidden operation; a statement with a separator followed by further non-whitespace
  content is invalid with the message \<^verbatim>\<open>multiple statements not allowed\<close>; every other
  statement is valid. The verdict is a returned pair.
\<close>

definition validate_query :: "string \<Rightarrow> bool \<times> string" where
  "validate_query sql =
     (if list_all is_space sql then (False, ''empty query'')
      else if leading_keyword sql \<noteq> ''SELECT'' then
        (False, ''forbidden operation: '' @ leading_keyword sql)
      else if multiple_statements sql then (False, ''multiple statements not allowed'')
      else (True, ''ok''))"

section \<open>Notions used to state the properties\<close>

text \<open>
  The invariant of a result set (section 3 of the specification): the column names are
  unique and every row has one value per column.
\<close>

definition well_formed :: "dataframe \<Rightarrow> bool" where
  "well_formed df =
     (distinct (df_columns df) \<and> list_all (\<lambda>r. length r = length (df_columns df)) (df_rows df))"

text \<open>The connector calls a view has made: what it added to the log.\<close>

definition new_events :: "state \<Rightarrow> state \<Rightarrow> event list" where
  "new_events s s' = drop (length (trace s)) (trace s')"

definition is_query_event :: "event \<Rightarrow> bool" where
  "is_query_event e = (case e of Validate n q \<Rightarrow> True | Execute n q \<Rightarrow> True | _ \<Rightarrow> False)"

fun executed :: "event list \<Rightarrow> pyval list" where
  "executed [] = []"
| "executed (Execute n q # es) = q # executed es"
| "executed (e # es) = executed es"

text \<open>The query that \<^verbatim>\<open>query_table\<close> builds from a valid form, for the connection found.\<close>

definition query_of :: "request \<Rightarrow> db_connection \<Rightarrow> pyval" where
  "query_of req c =
     build_query (db_type c) (cleaned_data req) (dict_get (cleaned_data req) ''query_type'')
       (dict_get (cleaned_data req) ''table_name'')"

section \<open>The JSON codec of pandas\<close>

text \<open>
  \<^verbatim>\<open>DataFrame.to_json()\<close> with its default \<^verbatim>\<open>orient='columns'\<close>, after the pandas
  documentation: the document has one member per column, in column order, and each column has
  one member per row, labelled \<^verbatim>\<open>0\<close>, \<^verbatim>\<open>1\<close>, ... in row order. Column labels must be
  unique for this orientation; otherwise \<^verbatim>\<open>to_json\<close> raises \<^verbatim>\<open>ValueError\<close>. A table is
  rectangular: a row that is too short reads as \<^verbatim>\<open>None\<close> there.
\<close>

definition columns_must_be_unique :: string where
  "columns_must_be_unique =
     ''DataFrame columns must be unique for orient='' @ [CHR 0x27] @ ''columns'' @ [CHR 0x27]
       @ ''.''"

definition cell_at :: "pyval list \<Rightarrow> nat \<Rightarrow> pyval" where
  "cell_at row j = (if j < length row then row ! j else PNone)"

fun scalar_of_cell :: "pyval \<Rightarrow> scalar" where
  "scalar_of_cell PNone = JNull"
| "scalar_of_cell (PInt i) = JNumber i"
| "scalar_of_cell (PStr s) = JString s"

definition json_of_column :: "pyval list list \<Rightarrow> nat \<Rightarrow> json_column" where
  "json_of_column rows j =
     map (\<lambda>(i, row). (str_of_nat i, scalar_of_cell (cell_at row j))) (enumerate 0 rows)"

definition pandas_to_json :: "dataframe \<Rightarrow> exn + json_doc" where
  "pandas_to_json df =
     (if distinct (df_columns df) then
        Inr (map (\<lambda>(j, label). (label, json_of_column (df_rows df) j))
               (enumerate 0 (df_columns df)))
      else Inl (Raised ValueError columns_must_be_unique))"

text \<open>
  \<^verbatim>\<open>pandas.read_json\<close> with its defaults, after the pandas documentation. The columns
  are the members of the document, in their order, and the rows are the row labels of the
  first column, in their order; a cell a column lacks is \<^verbatim>\<open>None\<close>. With the default
  \<^verbatim>\<open>dtype=True\<close> the types of the columns are inferred anew: a column whose cells all
  read as numbers becomes a column of numbers, so text made of digits comes back as a number.
  The cells of this model are integers, text and \<^verbatim>\<open>None\<close>: it makes numbers of the
  columns whose cells are integers or text of one to fifteen decimal digits, which pandas
  reads exactly. Where pandas would make floats or dates (other numeric text, numeric columns
  with missing cells, columns with date-like labels) the model leaves the column as it is:
  it changes no more than pandas does.
\<close>

fun cell_of_scalar :: "scalar \<Rightarrow> pyval" where
  "cell_of_scalar JNull = PNone"
| "cell_of_scalar (JNumber i) = PInt i"
| "cell_of_scalar (JString s) = PStr s"

definition is_digit :: "char \<Rightarrow> bool" where
  "is_digit c = (48 \<le> (of_char c :: nat) \<and> (of_char c :: nat) \<le> 57)"

fun reads_as_number :: "scalar \<Rightarrow> bool" where
  "reads_as_number JNull = False"
| "reads_as_number (JNumber i) = True"
| "reads_as_number (JString s) = (s \<noteq> [] \<and> length s \<le> 15 \<and> list_all is_digit s)"

definition numeric_column :: "json_column \<Rightarrow> bool" where
  "numeric_column col = (col \<noteq> [] \<and> list_all (\<lambda>(i, v). reads_as_number v) col)"

fun number_of_scalar :: "scalar \<Rightarrow> pyval" where
  "number_of_scalar (JString s) = PInt (int (decimal_value s))"
| "number_of_scalar v = cell_of_scalar v"

definition read_cell :: "json_column \<Rightarrow> string \<Rightarrow> pyval" where
  "read_cell col i =
     (case map_of col i of
        None \<Rightarrow> PNone
      | Some v \<Rightarrow> (if numeric_column col then number_of_scalar v else cell_of_scalar v))"

definition pandas_read_json :: "json_doc \<Rightarrow> exn + dataframe" where
  "pandas_read_json doc =
     Inr \<lparr>df_columns = map fst doc,
          df_rows =
            (case doc of
               [] \<Rightarrow> []
             | (label, first) # rest \<Rightarrow>
                 map (\<lambda>i. map (\<lambda>(l, col). read_cell col i) doc) (map fst first))\<rparr>"

subsection \<open>A concrete setting\<close>

text \<open>
  One sqlite connection with a table \<^verbatim>\<open>t\<close> of two rows, owned by \<^verbatim>\<open>ana\<close>. The connector
  connects, validates with \<open>validate_query\<close>, and knows no other table. Selecting the
  column \<^verbatim>\<open>id\<close> twice gives a result with two columns of that label, which
  \<^verbatim>\<open>to_json\<close> refuses. A second table, \<^verbatim>\<open>shops\<close>, has a text column of codes written
  with leading zeros. Tables are written and read with the codec of pandas.
\<close>

definition demo_connection :: db_connection where
  "demo_connection = \<lparr>conn_id = 7, conn_user = ''ana'', conn_name = ''shop'', db_type = ''sqlite''\<rparr>"

definition demo_table :: dataframe where
  "demo_table = \<lparr>df_columns = [''id'', ''name''], df_rows = [[PInt 1, PStr ''a''], [PInt 2, PNone]]\<rparr>"

definition demo_twice :: dataframe where
  "demo_twice = \<lparr>df_columns = [''id'', ''id''], df_rows = [[PInt 1, PInt 1], [PInt 2, PInt 2]]\<rparr>"

definition demo_shops :: dataframe where
  "demo_shops =
     \<lparr>df_columns = [''code'', ''city''],
      df_rows = [[PStr ''007'', PStr ''Oslo''], [PStr ''012'', PStr ''Bergen'']]\<rparr>"

definition demo_env :: connector_env where
  "demo_env =
     \<lparr>on_create = (\<lambda>n. None),
      on_connect = (\<lambda>n. Inr True),
      on_get_tables = (\<lambda>n. Inr [''t'']),
      on_get_table_info = (\<lambda>n t.
         if t = ''t'' then Inr \<lparr>ti_columns = [(''id'', ''INTEGER''), (''name'', ''TEXT'')], ti_row_count = 2\<rparr>
         else Inl (Raised SchemaError (''no such table: '' @ t))),
      on_get_table_data = (\<lambda>n t l.
         if t = ''t'' then Inr demo_table else Inl (Raised ExecutionError (''no such table: '' @ t))),
      on_validate_query = (\<lambda>q. case q of PStr sql \<Rightarrow> validate_query sql | _ \<Rightarrow> (False, ''empty query'')),
      on_execute_query = (\<lambda>n q.
         if q = PStr ''SELECT * FROM [t]'' then Inr demo_table
         else if q = PStr ''SELECT id, id FROM t'' then Inr demo_twice
         else if q = PStr ''SELECT code, city FROM shops'' then Inr demo_shops
         else Inl (Raised ExecutionError ''no such table: u'')),
      on_test_connection = (\<lambda>c. Inr (True, ''Connection successful'')),
      df_to_json = pandas_to_json,
      df_read_json = pandas_read_json\<rparr>"

definition demo_state :: state where
  "demo_state =
     \<lparr>connections = [demo_connection], history = [], session = [], messages = [], trace = []\<rparr>"

definition demo_request :: "string \<Rightarrow> bool \<Rightarrow> pydict \<Rightarrow> request" where
  "demo_request m valid cd =
     \<lparr>req_method = m, req_user = ''ana'', form_valid = valid, cleaned_data = cd,
      cleaned_data_str = ''{}'', form_instance = demo_connection\<lparr>conn_name := ''shop2''\<rparr>\<rparr>"

text \<open>
  Five posted forms: all rows of \<^verbatim>\<open>t\<close>, a custom \<^verbatim>\<open>DROP\<close>, a custom query that selects
  a column twice, a custom query for the codes and cities of the shops, all rows of a missing
  table.
\<close>

definition demo_select_shops :: request where
  "demo_select_shops =
     demo_request ''POST'' True
       [(''query_type'', PStr ''custom''), (''custom_query'', PStr ''SELECT code, city FROM shops'')]"

definition demo_select_all :: request where
  "demo_select_all =
     demo_request ''POST'' True [(''query_type'', PStr ''all''), (''table_name'', PStr ''t'')]"

definition demo_drop :: request where
  "demo_drop =
     demo_request ''POST'' True
       [(''query_type'', PStr ''custom''), (''custom_query'', PStr ''DROP TABLE x'')]"

definition demo_select_twice :: request where
  "demo_select_twice =
     demo_request ''POST'' True
       [(''query_type'', PStr ''custom''), (''custom_query'', PStr ''SELECT id, id FROM t'')]"

definition demo_select_missing :: request where
  "demo_select_missing =
     demo_request ''POST'' True [(''query_type'', PStr ''all''), (''table_name'', PStr ''u'')]"

section \<open>Decimal numerals\<close>

lemma decimal_value_snoc: "decimal_value (ds @ [c]) = 10 * decimal_value ds + (of_char c - 48)"
  by (simp add: decimal_value_def)

lemma of_char_digit_char: "d < 10 \<Longrightarrow> (of_char (digit_char d) :: nat) = 48 + d"
  by (simp add: digit_char_def)

lemma decimal_value_str_of_nat: "decimal_value (str_of_nat n) = n"
proof (induction n rule: str_of_nat.induct)
  case (1 n)
  show ?case
  proof (cases "n < 10")
    case True
    then show ?thesis
      by (subst str_of_nat.simps) (simp add: decimal_value_def of_char_digit_char)
  next
    case False
    then have "decimal_value (str_of_nat (n div 10)) = n div 10" using 1 by simp
    with False show ?thesis
      by (subst str_of_nat.simps) (simp add: decimal_value_snoc of_char_digit_char)
  qed
qed

section \<open>The canned queries are quoted for their dialect\<close>

text \<open>
  C3 (amended). For every non-empty table name \<open>t\<close>, the query built for "all rows" is
  \<^verbatim>\<open>SELECT * FROM [t]\<close> for sqlite, the same with \<open>t\<close> in double quotes for postgresql,
  and with \<open>t\<close> in backticks for mysql. The name must be non-empty: line 163 tests
  \<^verbatim>\<open>query_type == 'all' and table_name\<close>, and the empty name is the dropdown's
  "no table selected".
\<close>

theorem select_all_query:
  "t \<noteq> [] \<Longrightarrow>
     build_query ''sqlite'' cd (PStr ''all'') (PStr t) = PStr (''SELECT * FROM ['' @ t @ '']'')
   \<and> build_query ''postgresql'' cd (PStr ''all'') (PStr t)
       = PStr (''SELECT * FROM '' @ [dquote] @ t @ [dquote])
   \<and> build_query ''mysql'' cd (PStr ''all'') (PStr t)
       = PStr (''SELECT * FROM '' @ [backtick] @ t @ [backtick])"
  by (simp add: build_query_def)

theorem select_all_query_witness:
  "''my table'' \<noteq> []
   \<and> build_query ''sqlite'' [] (PStr ''all'') (PStr ''my table'') = PStr ''SELECT * FROM [my table]''
   \<and> build_query ''postgresql'' [] (PStr ''all'') (PStr ''my table'')
       = PStr (''SELECT * FROM '' @ [CHR 0x22] @ ''my table'' @ [CHR 0x22])
   \<and> build_query ''mysql'' [] (PStr ''all'') (PStr ''my table'')
       = PStr (''SELECT * FROM '' @ [CHR 0x60] @ ''my table'' @ [CHR 0x60])"
  using select_all_query [of "''my table''" "[]"] by (simp add: dquote_def backtick_def)

text \<open>
  C3 as stated, for every table name, fails at the empty name: no query is built, and the
  view goes on to report \<^verbatim>\<open>No valid query to execute\<close>.
\<close>

theorem select_all_empty_name_counterexample:
  "build_query ''sqlite'' [] (PStr ''all'') (PStr '''') = PNone
   \<and> build_query ''sqlite'' [] (PStr ''all'') (PStr '''') \<noteq> PStr ''SELECT * FROM []''"
  by (simp add: build_query_def)

text \<open>
  C4 (amended). For every non-empty table name \<open>t\<close> and all non-negative integers \<open>lim\<close>
  and \<open>off\<close> in the form's \<^verbatim>\<open>limit_rows\<close> and \<^verbatim>\<open>offset_rows\<close>, the paginated query is
  \<^verbatim>\<open>SELECT * FROM <quoted t> LIMIT lim OFFSET off\<close>, quoted with brackets for sqlite,
  double quotes for postgresql and backticks for mysql, where the two numbers are written as
  decimal numerals: read back, they are \<open>lim\<close> and \<open>off\<close>.
\<close>

theorem select_paginated_query:
  assumes "t \<noteq> []" and "0 \<le> lim" and "0 \<le> off"
    and "map_of cd ''limit_rows'' = Some (PInt lim)"
    and "map_of cd ''offset_rows'' = Some (PInt off)"
  shows "build_query ''sqlite'' cd (PStr ''limit'') (PStr t)
           = PStr (''SELECT * FROM ['' @ t @ ''] LIMIT '' @ str_of_nat (nat lim)
                   @ '' OFFSET '' @ str_of_nat (nat off))
       \<and> build_query ''postgresql'' cd (PStr ''limit'') (PStr t)
           = PStr (''SELECT * FROM '' @ [dquote] @ t @ [dquote] @ '' LIMIT ''
                   @ str_of_nat (nat lim) @ '' OFFSET '' @ str_of_nat (nat off))
       \<and> build_query ''mysql'' cd (PStr ''limit'') (PStr t)
           = PStr (''SELECT * FROM '' @ [backtick] @ t @ [backtick] @ '' LIMIT ''
                   @ str_of_nat (nat lim) @ '' OFFSET '' @ str_of_nat (nat off))
       \<and> int (decimal_value (str_of_nat (nat lim))) = lim
       \<and> int (decimal_value (str_of_nat (nat off))) = off"
  using assms
  by (simp add: build_query_def dict_get_default_def str_of_int_def decimal_value_str_of_nat)

theorem select_paginated_query_witness:
  "''my table'' \<noteq> [] \<and> (0::int) \<le> 25 \<and> (0::int) \<le> 50
   \<and> map_of [(''limit_rows'', PInt 25), (''offset_rows'', PInt 50)] ''limit_rows'' = Some (PInt 25)
   \<and> map_of [(''limit_rows'', PInt 25), (''offset_rows'', PInt 50)] ''offset_rows'' = Some (PInt 50)
   \<and> build_query ''sqlite'' [(''limit_rows'', PInt 25), (''offset_rows'', PInt 50)]
        (PStr ''limit'') (PStr ''my table'')
       = PStr ''SELECT * FROM [my table] LIMIT 25 OFFSET 50''
   \<and> build_query ''postgresql'' [(''limit_rows'', PInt 25), (''offset_rows'', PInt 50)]
        (PStr ''limit'') (PStr ''my table'')
       = PStr (''SELECT * FROM '' @ [CHR 0x22] @ ''my table'' @ [CHR 0x22] @ '' LIMIT 25 OFFSET 50'')
   \<and> build_query ''mysql'' [(''limit_rows'', PInt 25), (''offset_rows'', PInt 50)]
        (PStr ''limit'') (PStr ''my table'')
       = PStr (''SELECT * FROM '' @ [CHR 0x60] @ ''my table'' @ [CHR 0x60] @ '' LIMIT 25 OFFSET 50'')"
proof -
  have d25: "str_of_nat 25 = ''25''" by code_simp
  have d50: "str_of_nat 50 = ''50''" by code_simp
  show ?thesis
    using select_paginated_query
            [of "''my table''" 25 50 "[(''limit_rows'', PInt 25), (''offset_rows'', PInt 50)]"]
    by (simp add: d25 d50 dquote_def backtick_def)
qed

text \<open>
  C4 as stated fails at the empty table name, for the same test at line 172: no query is
  built.
\<close>

theorem select_paginated_empty_name_counterexample:
  "build_query ''sqlite'' [(''limit_rows'', PInt 25), (''offset_rows'', PInt 50)]
     (PStr ''limit'') (PStr '''') = PNone
   \<and> build_query ''sqlite'' [(''limit_rows'', PInt 25), (''offset_rows'', PInt 50)]
       (PStr ''limit'') (PStr '''') \<noteq> PStr ''SELECT * FROM [] LIMIT 25 OFFSET 50''"
  by (simp add: build_query_def)

section \<open>The preview of a result\<close>

lemma update_fresh: "k \<notin> fst ` set d \<Longrightarrow> AList.update k v d = d @ [(k, v)]"
  by (induction d) auto

lemma dict_of_pairs_distinct:
  "distinct (map fst d @ map fst kvs) \<Longrightarrow> dict_of_pairs d kvs = d @ kvs"
proof (induction kvs arbitrary: d)
  case Nil
  then show ?case by simp
next
  case (Cons kv kvs)
  obtain k v where kv: "kv = (k, v)" by (cases kv)
  from Cons.prems kv have fresh: "k \<notin> fst ` set d" by auto
  from Cons.prems kv have "distinct (map fst (d @ [(k, v)]) @ map fst kvs)" by auto
  then have "dict_of_pairs (d @ [(k, v)]) kvs = (d @ [(k, v)]) @ kvs" by (rule Cons.IH)
  with fresh kv show ?case by (simp add: update_fresh)
qed

lemma row_record_distinct:
  "distinct cols \<Longrightarrow> length row = length cols \<Longrightarrow> row_record cols row = zip cols row"
  unfolding row_record_def by (subst dict_of_pairs_distinct) simp_all

lemma row_values: "distinct cols \<Longrightarrow> length row = length cols \<Longrightarrow> map snd (row_record cols row) = row"
  by (simp add: row_record_distinct)

text \<open>
  C8. The preview handed to the result template holds the first \<open>min total 100\<close> rows of
  the result, in their order, one dictionary per row; \<^verbatim>\<open>total_rows\<close> is the number of rows
  of the result and \<^verbatim>\<open>display_rows\<close> is \<open>min total 100\<close>, which is also the number of
  rows in the preview. For a well-formed result the values of the dictionaries are the rows
  themselves.
\<close>

theorem preview_first_rows:
  "rd_columns (make_result_data df) = df_columns df
   \<and> rd_data (make_result_data df)
       = map (row_record (df_columns df)) (take (min (length (df_rows df)) 100) (df_rows df))
   \<and> rd_total_rows (make_result_data df) = length (df_rows df)
   \<and> rd_display_rows (make_result_data df) = min (length (df_rows df)) 100
   \<and> length (rd_data (make_result_data df)) = rd_display_rows (make_result_data df)
   \<and> (well_formed df \<longrightarrow>
        map (map snd) (rd_data (make_result_data df))
          = take (min (length (df_rows df)) 100) (df_rows df))"
proof -
  have "map (map snd) (map (row_record (df_columns df)) (take 100 (df_rows df))) = take 100 (df_rows df)"
    if "well_formed df"
  proof -
    have "\<forall>r \<in> set (take 100 (df_rows df)). map snd (row_record (df_columns df) r) = r"
      using that by (auto simp: well_formed_def list_all_iff row_values dest: in_set_takeD)
    then show ?thesis by (simp add: map_idI)
  qed
  then show ?thesis
    by (auto simp: make_result_data_def to_dict_records_def df_head_def df_len_def min_def)
qed

theorem preview_first_rows_witness:
  "well_formed \<lparr>df_columns = [''id'', ''name''], df_rows = [[PInt 1, PStr ''a''], [PInt 2, PNone]]\<rparr>
   \<and> rd_data (make_result_data
        \<lparr>df_columns = [''id'', ''name''], df_rows = [[PInt 1, PStr ''a''], [PInt 2, PNone]]\<rparr>)
       = [[(''id'', PInt 1), (''name'', PStr ''a'')], [(''id'', PInt 2), (''name'', PNone)]]
   \<and> rd_total_rows (make_result_data
        \<lparr>df_columns = [''id'', ''name''], df_rows = [[PInt 1, PStr ''a''], [PInt 2, PNone]]\<rparr>) = 2
   \<and> rd_display_rows (make_result_data
        \<lparr>df_columns = [''id'', ''name''], df_rows = [[PInt 1, PStr ''a''], [PInt 2, PNone]]\<rparr>) = 2
   \<and> map (map snd) (rd_data (make_result_data
        \<lparr>df_columns = [''id'', ''name''], df_rows = [[PInt 1, PStr ''a''], [PInt 2, PNone]]\<rparr>))
       = [[PInt 1, PStr ''a''], [PInt 2, PNone]]"
  using preview_first_rows
          [of "\<lparr>df_columns = [''id'', ''name''], df_rows = [[PInt 1, PStr ''a''], [PInt 2, PNone]]\<rparr>"]
  by (simp add: well_formed_def row_record_def)

section \<open>The safety check rejects what is not a \<^verbatim>\<open>SELECT\<close>\<close>

lemma leading_keyword_nonempty: "\<not> list_all is_space q \<Longrightarrow> leading_keyword q \<noteq> []"
proof -
  assume "\<not> list_all is_space q"
  then have "dropWhile is_space q \<noteq> []" by (simp add: list_all_iff)
  then obtain c cs where d: "dropWhile is_space q = c # cs" by (cases "dropWhile is_space q") auto
  then have "\<not> is_space c" using hd_dropWhile [of is_space q] by auto
  with d show ?thesis by (simp add: leading_keyword_def)
qed

lemma validate_query_lower_case:
  "validate_query ''drop table x'' = (False, ''forbidden operation: DROP'')"
  by code_simp

text \<open>
  C1. A statement whose leading keyword, in upper case, is not \<^verbatim>\<open>SELECT\<close> is rejected: the
  check returns \<^verbatim>\<open>False\<close> and a message, as a pair. Unless the statement is empty or
  blank, it has a leading keyword and the message names it; an empty or blank statement
  gets the message \<^verbatim>\<open>empty query\<close>.
\<close>

theorem validate_query_rejects_non_select:
  "leading_keyword q \<noteq> ''SELECT'' \<Longrightarrow>
     fst (validate_query q) = False
   \<and> (\<not> list_all is_space q \<longrightarrow>
        leading_keyword q \<noteq> []
        \<and> snd (validate_query q) = ''forbidden operation: '' @ leading_keyword q)
   \<and> (list_all is_space q \<longrightarrow> snd (validate_query q) = ''empty query'')"
  by (simp add: validate_query_def leading_keyword_nonempty)

theorem validate_query_rejects_non_select_witness:
  "leading_keyword ''DROP TABLE x'' \<noteq> ''SELECT''
   \<and> \<not> list_all is_space ''DROP TABLE x''
   \<and> validate_query ''DROP TABLE x'' = (False, ''forbidden operation: DROP'')"
proof -
  have k: "leading_keyword ''DROP TABLE x'' = ''DROP''"
    by (simp add: leading_keyword_def is_space_def upper_char_def)
  have n: "\<not> list_all is_space ''DROP TABLE x''" by (simp add: is_space_def)
  from k have "leading_keyword ''DROP TABLE x'' \<noteq> ''SELECT''" by simp
  from validate_query_rejects_non_select [OF this] k n show ?thesis
     by (simp add: prod_eq_iff)
qed

section \<open>The name \<^verbatim>\<open>test_connection\<close> at run time\<close>

lemma lookup_test_connection: "lookup_global ''test_connection'' = Some (DefinedAt 76)"
  by (simp add: lookup_global_def module_bindings_def)

lemma call_test_connection_raises:
  "call_test_connection env c = Inl (Raised TypeError missing_argument)"
  by (simp add: call_test_connection_def lookup_test_connection)

section \<open>What \<^verbatim>\<open>query_table\<close> does, case by case\<close>

lemma load_tables_frame:
  "history (snd (load_tables env s)) = history s"
  "messages (snd (load_tables env s)) = messages s"
  "session (snd (load_tables env s)) = session s"
  "connections (snd (load_tables env s)) = connections s"
  by (simp_all add: load_tables_def log_def Let_def split: option.splits sum.splits)

lemma load_tables_trace:
  "\<exists>evs. trace (snd (load_tables env s)) = trace s @ evs \<and> \<not> list_ex is_query_event evs"
  by (simp add: load_tables_def log_def Let_def is_query_event_def split: option.splits sum.splits)

lemma run_query_cases:
  fixes env req c cid qt tn s
  defines "q \<equiv> build_query (db_type c) (cleaned_data req) qt tn"
  defines "r \<equiv> run_query env req c cid qt tn s"
  shows
   "(\<exists>evs. trace (snd r) = trace s @ evs \<and> \<not> list_ex is_query_event evs
       \<and> history (snd r) = history s \<and> fst r = None)
    \<or> (trace (snd r) = trace s @ [Create 0, Connect 0, Validate 0 q]
        \<and> \<not> fst (on_validate_query env q)
        \<and> history (snd r) = history s @
             [\<lparr>qh_user = req_user req, qh_connection = conn_id c, qh_query = q,
               qh_success = False, qh_error_message = Some (snd (on_validate_query env q))\<rparr>]
        \<and> messages (snd r) = messages s @ [(Error, ''Query failed: '' @ snd (on_validate_query env q))]
        \<and> fst r = None)
    \<or> (trace (snd r) = trace s @ [Create 0, Connect 0, Validate 0 q, Execute 0 q]
        \<and> fst (on_validate_query env q)
        \<and> (\<exists>e. on_execute_query env 0 q = Inl e
             \<and> history (snd r) = history s @
                 [\<lparr>qh_user = req_user req, qh_connection = conn_id c, qh_query = q,
                   qh_success = False, qh_error_message = Some (exn_str e)\<rparr>]
             \<and> messages (snd r) = messages s @ [(Error, ''Query failed: '' @ exn_str e)])
        \<and> fst r = None)
    \<or> (trace (snd r) = trace s @ [Create 0, Connect 0, Validate 0 q, Execute 0 q]
        \<and> fst (on_validate_query env q)
        \<and> (\<exists>df e. on_execute_query env 0 q = Inr df \<and> df_to_json env df = Inl e
             \<and> history (snd r) = history s @
                 [\<lparr>qh_user = req_user req, qh_connection = conn_id c, qh_query = q,
                   qh_success = True, qh_error_message = None\<rparr>,
                  \<lparr>qh_user = req_user req, qh_connection = conn_id c, qh_query = q,
                   qh_success = False, qh_error_message = Some (exn_str e)\<rparr>]
             \<and> messages (snd r) = messages s @ [(Error, ''Query failed: '' @ exn_str e)])
        \<and> fst r = None)
    \<or> (trace (snd r) = trace s @ [Create 0, Connect 0, Validate 0 q, Execute 0 q, Disconnect 0]
        \<and> fst (on_validate_query env q)
        \<and> (\<exists>df json. on_execute_query env 0 q = Inr df \<and> df_to_json env df = Inr json
             \<and> history (snd r) = history s @
                 [\<lparr>qh_user = req_user req, qh_connection = conn_id c, qh_query = q,
                   qh_success = True, qh_error_message = None\<rparr>]
             \<and> messages (snd r) = messages s
             \<and> fst r = Some (RenderQueryResult c (make_result_data df) q True)))"
  unfolding r_def q_def
  by (simp add: run_query_def run_built_query_def execute_validated_def query_failed_def
        log_def add_message_def Let_def is_query_event_def
      split: option.splits sum.splits)

lemma get_object_or_404_id:
  "get_object_or_404 s cid u = Inr c \<Longrightarrow> conn_id c = cid \<and> conn_user c = u"
  by (auto simp: get_object_or_404_def find_Some_iff split: option.splits)

lemma query_table_cases:
  fixes env cid req s
  defines "out \<equiv> query_table env cid req s"
  shows
   "(\<exists>evs. trace (snd out) = trace s @ evs \<and> \<not> list_ex is_query_event evs
       \<and> history (snd out) = history s)
    \<or> (\<exists>c evs. get_object_or_404 s cid (req_user req) = Inr c
        \<and> trace (snd out) = trace s @ [Create 0, Connect 0, Validate 0 (query_of req c)] @ evs
        \<and> \<not> list_ex is_query_event evs
        \<and> \<not> fst (on_validate_query env (query_of req c))
        \<and> history (snd out) = history s @
             [\<lparr>qh_user = req_user req, qh_connection = cid, qh_query = query_of req c,
               qh_success = False,
               qh_error_message = Some (snd (on_validate_query env (query_of req c)))\<rparr>]
        \<and> messages (snd out) = messages s @
             [(Error, ''Query failed: '' @ snd (on_validate_query env (query_of req c)))])
    \<or> (\<exists>c evs e. get_object_or_404 s cid (req_user req) = Inr c
        \<and> trace (snd out) = trace s @
             [Create 0, Connect 0, Validate 0 (query_of req c), Execute 0 (query_of req c)] @ evs
        \<and> \<not> list_ex is_query_event evs
        \<and> fst (on_validate_query env (query_of req c))
        \<and> on_execute_query env 0 (query_of req c) = Inl e
        \<and> history (snd out) = history s @
             [\<lparr>qh_user = req_user req, qh_connection = cid, qh_query = query_of req c,
               qh_success = False, qh_error_message = Some (exn_str e)\<rparr>]
        \<and> messages (snd out) = messages s @ [(Error, ''Query failed: '' @ exn_str e)])
    \<or> (\<exists>c evs df e. get_object_or_404 s cid (req_user req) = Inr c
        \<and> trace (snd out) = trace s @
             [Create 0, Connect 0, Validate 0 (query_of req c), Execute 0 (query_of req c)] @ evs
        \<and> \<not> list_ex is_query_event evs
        \<and> fst (on_validate_query env (query_of req c))
        \<and> on_execute_query env 0 (query_of req c) = Inr df
        \<and> df_to_json env df = Inl e
        \<and> history (snd out) = history s @
             [\<lparr>qh_user = req_user req, qh_connection = cid, qh_query = query_of req c,
               qh_success = True, qh_error_message = None\<rparr>,
              \<lparr>qh_user = req_user req, qh_connection = cid, qh_query = query_of req c,
               qh_success = False, qh_error_message = Some (exn_str e)\<rparr>]
        \<and> messages (snd out) = messages s @ [(Error, ''Query failed: '' @ exn_str e)])
    \<or> (\<exists>c df json. get_object_or_404 s cid (req_user req) = Inr c
        \<and> trace (snd out) = trace s @
             [Create 0, Connect 0, Validate 0 (query_of req c), Execute 0 (query_of req c),
              Disconnect 0]
        \<and> fst (on_validate_query env (query_of req c))
        \<and> on_execute_query env 0 (query_of req c) = Inr df
        \<and> df_to_json env df = Inr json
        \<and> history (snd out) = history s @
             [\<lparr>qh_user = req_user req, qh_connection = cid, qh_query = query_of req c,
               qh_success = True, qh_error_message = None\<rparr>]
        \<and> messages (snd out) = messages s
        \<and> fst out = Inr (RenderQueryResult c (make_result_data df) (query_of req c) True))"
proof (cases "req_method req \<in> set [''GET'', ''POST'']")
  case False
  then have "out = (Inr NotAllowed, s)"
    by (simp add: out_def query_table_def require_http_methods_def)
  then show ?thesis by (simp add: is_query_event_def)
next
  case allowed: True
  show ?thesis
  proof (cases "get_object_or_404 s cid (req_user req)")
    case (Inl e)
    with allowed have "out = (Inl e, s)"
      by (simp add: out_def query_table_def require_http_methods_def query_table_body_def)
    then show ?thesis by (simp add: is_query_event_def)
  next
    case (Inr c)
    then have cid: "conn_id c = cid" by (simp add: get_object_or_404_id)
    have form: "snd (query_form env c s0) = snd (load_tables env s0)" for s0
      by (simp add: query_form_def)
    show ?thesis
    proof (cases "req_method req = ''POST'' \<and> form_valid req")
      case False
      with allowed Inr have "snd out = snd (load_tables env s)"
        by (auto simp: out_def query_table_def require_http_methods_def query_table_body_def form)
      then show ?thesis using load_tables_trace [of env s] by (auto simp: load_tables_frame)
    next
      case post: True
      show ?thesis
      proof (cases "map_of (cleaned_data req) ''query_type''")
        case None
        with allowed Inr post have "snd out = s"
          by (simp add: out_def query_table_def require_http_methods_def query_table_body_def)
        then show ?thesis by (simp add: is_query_event_def)
      next
        case (Some qt)
        define r where "r = run_query env req c cid qt (dict_get (cleaned_data req) ''table_name'') s"
        have q: "build_query (db_type c) (cleaned_data req) qt (dict_get (cleaned_data req) ''table_name'')
                   = query_of req c"
          using Some by (simp add: query_of_def dict_get_def)
        have out: "out = (case r of (Some resp, s1) \<Rightarrow> (Inr resp, s1)
                                   | (None, s1) \<Rightarrow> query_form env c s1)"
          using allowed Inr post Some
          by (simp add: out_def query_table_def require_http_methods_def query_table_body_def r_def)
        have none: "snd out = snd (load_tables env (snd r))" if "fst r = None"
          using that out by (cases r) (simp add: form)
        have some: "out = (Inr resp, snd r)" if "fst r = Some resp" for resp
          using that out by (cases r) simp
        obtain evs2 where evs2: "trace (snd (load_tables env (snd r))) = trace (snd r) @ evs2"
            "\<not> list_ex is_query_event evs2"
          using load_tables_trace [of env "snd r"] by blast
        from run_query_cases [of env req c cid qt "dict_get (cleaned_data req) ''table_name''" s]
        show ?thesis
          unfolding q r_def [symmetric]
        proof (elim disjE exE conjE)
          fix evs
          assume a: "trace (snd r) = trace s @ evs" "\<not> list_ex is_query_event evs"
            "history (snd r) = history s" "fst r = None"
          then have "trace (snd out) = trace s @ (evs @ evs2)" "\<not> list_ex is_query_event (evs @ evs2)"
            "history (snd out) = history s"
            using evs2 none by (simp_all add: load_tables_frame)
          then show ?thesis by blast
        next
          assume a: "trace (snd r) = trace s @ [Create 0, Connect 0, Validate 0 (query_of req c)]"
            "\<not> fst (on_validate_query env (query_of req c))"
            "history (snd r) = history s @
               [\<lparr>qh_user = req_user req, qh_connection = conn_id c, qh_query = query_of req c,
                 qh_success = False,
                 qh_error_message = Some (snd (on_validate_query env (query_of req c)))\<rparr>]"
            "messages (snd r) = messages s @
               [(Error, ''Query failed: '' @ snd (on_validate_query env (query_of req c)))]"
            "fst r = None"
          then show ?thesis
            using evs2 none Inr cid by (simp add: load_tables_frame)
        next
          fix e
          assume a: "trace (snd r) = trace s @
               [Create 0, Connect 0, Validate 0 (query_of req c), Execute 0 (query_of req c)]"
            "fst (on_validate_query env (query_of req c))"
            "on_execute_query env 0 (query_of req c) = Inl e"
            "history (snd r) = history s @
               [\<lparr>qh_user = req_user req, qh_connection = conn_id c, qh_query = query_of req c,
                 qh_success = False, qh_error_message = Some (exn_str e)\<rparr>]"
            "messages (snd r) = messages s @ [(Error, ''Query failed: '' @ exn_str e)]"
            "fst r = None"
          then show ?thesis
            using evs2 none Inr cid by (simp add: load_tables_frame)
        next
          fix df e
          assume a: "trace (snd r) = trace s @
               [Create 0, Connect 0, Validate 0 (query_of req c), Execute 0 (query_of req c)]"
            "fst (on_validate_query env (query_of req c))"
            "on_execute_query env 0 (query_of req c) = Inr df"
            "df_to_json env df = Inl e"
            "history (snd r) = history s @
               [\<lparr>qh_user = req_user req, qh_connection = conn_id c, qh_query = query_of req c,
                 qh_success = True, qh_error_message = None\<rparr>,
                \<lparr>qh_user = req_user req, qh_connection = conn_id c, qh_query = query_of req c,
                 qh_success = False, qh_error_message = Some (exn_str e)\<rparr>]"
            "messages (snd r) = messages s @ [(Error, ''Query failed: '' @ exn_str e)]"
            "fst r = None"
          then show ?thesis
            using evs2 none Inr cid by (simp add: load_tables_frame)
        next
          fix df json
          assume a: "trace (snd r) = trace s @
               [Create 0, Connect 0, Validate 0 (query_of req c), Execute 0 (query_of req c),
                Disconnect 0]"
            "fst (on_validate_query env (query_of req c))"
            "on_execute_query env 0 (query_of req c) = Inr df"
            "df_to_json env df = Inr json"
            "history (snd r) = history s @
               [\<lparr>qh_user = req_user req, qh_connection = conn_id c, qh_query = query_of req c,
                 qh_success = True, qh_error_message = None\<rparr>]"
            "messages (snd r) = messages s"
            "fst r = Some (RenderQueryResult c (make_result_data df) (query_of req c) True)"
          then show ?thesis
            using some [OF a(7)] Inr cid by simp
        qed
      qed
    qed
  qed
qed

lemma executed_no_query_event: "\<not> list_ex is_query_event evs \<Longrightarrow> executed evs = []"
  by (induction evs rule: executed.induct) (simp_all add: is_query_event_def)

lemma executed_append: "executed (xs @ ys) = executed xs @ executed ys"
  by (induction xs rule: executed.induct) simp_all

lemma no_query_event_mem:
  "\<not> list_ex is_query_event evs \<Longrightarrow> Execute n q \<notin> set evs \<and> Validate n q \<notin> set evs"
  by (auto simp: list_ex_iff is_query_event_def)

lemma new_events_append: "trace s' = trace s @ evs \<Longrightarrow> new_events s s' = evs"
  by (simp add: new_events_def)

subsection \<open>The concrete setting, run\<close>

lemmas demo_defs =
  demo_select_all_def demo_drop_def demo_select_twice_def demo_select_shops_def
  demo_select_missing_def demo_request_def demo_state_def demo_env_def demo_connection_def

lemma row_labels: "str_of_nat 0 = ''0'' \<and> str_of_nat (Suc 0) = ''1''"
  by code_simp

lemma demo_table_to_json:
  "pandas_to_json demo_table =
     Inr [(''id'', [(''0'', JNumber 1), (''1'', JNumber 2)]),
          (''name'', [(''0'', JString ''a''), (''1'', JNull)])]"
  by (simp add: pandas_to_json_def json_of_column_def cell_at_def demo_table_def row_labels)

lemma demo_twice_to_json:
  "pandas_to_json demo_twice = Inl (Raised ValueError columns_must_be_unique)"
  by (simp add: pandas_to_json_def demo_twice_def)

lemma demo_shops_to_json:
  "pandas_to_json demo_shops =
     Inr [(''code'', [(''0'', JString ''007''), (''1'', JString ''012'')]),
          (''city'', [(''0'', JString ''Oslo''), (''1'', JString ''Bergen'')])]"
  by (simp add: pandas_to_json_def json_of_column_def cell_at_def demo_shops_def row_labels)

lemmas view_defs =
  query_table_def require_http_methods_def query_table_body_def get_object_or_404_def
  run_query_def run_built_query_def execute_validated_def query_failed_def query_form_def
  load_tables_def log_def add_message_def build_query_def dict_get_def dict_get_default_def
  new_events_def

lemma validate_select_all: "validate_query ''SELECT * FROM [t]'' = (True, ''ok'')"
  by (simp add: validate_query_def leading_keyword_def is_space_def upper_char_def
        multiple_statements_def)

lemma validate_select_missing: "validate_query ''SELECT * FROM [u]'' = (True, ''ok'')"
  by (simp add: validate_query_def leading_keyword_def is_space_def upper_char_def
        multiple_statements_def)

lemma validate_drop: "validate_query ''DROP TABLE x'' = (False, ''forbidden operation: DROP'')"
  by (simp add: validate_query_def leading_keyword_def is_space_def upper_char_def)

lemma demo_select_all_run:
  "query_table demo_env 7 demo_select_all demo_state =
     (Inr (RenderQueryResult demo_connection (make_result_data demo_table)
             (PStr ''SELECT * FROM [t]'') True),
      demo_state
        \<lparr>history := [\<lparr>qh_user = ''ana'', qh_connection = 7, qh_query = PStr ''SELECT * FROM [t]'',
                      qh_success = True, qh_error_message = None\<rparr>],
         session := [(''query_result_7'',
                      \<lparr>se_query = PStr ''SELECT * FROM [t]'',
                       se_data = [(''id'', [(''0'', JNumber 1), (''1'', JNumber 2)]),
                                  (''name'', [(''0'', JString ''a''), (''1'', JNull)])],
                       se_connection_name = ''shop''\<rparr>)],
         trace := [Create 0, Connect 0, Validate 0 (PStr ''SELECT * FROM [t]''),
                   Execute 0 (PStr ''SELECT * FROM [t]''), Disconnect 0]\<rparr>)"
proof -
  have k: "str_of_int 7 = ''7''" by code_simp
  show ?thesis
    by (simp add: view_defs demo_defs validate_select_all demo_table_to_json k)
qed

lemma validate_select_twice: "validate_query ''SELECT id, id FROM t'' = (True, ''ok'')"
  by (simp add: validate_query_def leading_keyword_def is_space_def upper_char_def
        multiple_statements_def)

lemma demo_select_twice_run:
  "query_table demo_env 7 demo_select_twice demo_state =
     (Inr (RenderQueryForm demo_connection [''t'']),
      demo_state
        \<lparr>history := [\<lparr>qh_user = ''ana'', qh_connection = 7,
                       qh_query = PStr ''SELECT id, id FROM t'', qh_success = True,
                       qh_error_message = None\<rparr>,
                     \<lparr>qh_user = ''ana'', qh_connection = 7,
                       qh_query = PStr ''SELECT id, id FROM t'', qh_success = False,
                       qh_error_message = Some columns_must_be_unique\<rparr>],
         messages := [(Error, ''Query failed: '' @ columns_must_be_unique)],
         trace := [Create 0, Connect 0, Validate 0 (PStr ''SELECT id, id FROM t''),
                   Execute 0 (PStr ''SELECT id, id FROM t''), Create 1, Connect 1,
                   GetTables 1, Disconnect 1]\<rparr>)"
  by (simp add: view_defs demo_defs validate_select_twice demo_twice_to_json)

lemma demo_drop_run:
  "query_table demo_env 7 demo_drop demo_state =
     (Inr (RenderQueryForm demo_connection [''t'']),
      demo_state
        \<lparr>history := [\<lparr>qh_user = ''ana'', qh_connection = 7, qh_query = PStr ''DROP TABLE x'',
                      qh_success = False,
                      qh_error_message = Some ''forbidden operation: DROP''\<rparr>],
         messages := [(Error, ''Query failed: forbidden operation: DROP'')],
         trace := [Create 0, Connect 0, Validate 0 (PStr ''DROP TABLE x''), Create 1, Connect 1,
                   GetTables 1, Disconnect 1]\<rparr>)"
  by (simp add: view_defs demo_defs validate_drop)

lemma demo_select_missing_run:
  "query_table demo_env 7 demo_select_missing demo_state =
     (Inr (RenderQueryForm demo_connection [''t'']),
      demo_state
        \<lparr>history := [\<lparr>qh_user = ''ana'', qh_connection = 7, qh_query = PStr ''SELECT * FROM [u]'',
                      qh_success = False,
                      qh_error_message = Some ''no such table: u''\<rparr>],
         messages := [(Error, ''Query failed: no such table: u'')],
         trace := [Create 0, Connect 0, Validate 0 (PStr ''SELECT * FROM [u]''),
                   Execute 0 (PStr ''SELECT * FROM [u]''), Create 1, Connect 1,
                   GetTables 1, Disconnect 1]\<rparr>)"
  by (simp add: view_defs demo_defs validate_select_missing)

section \<open>Validation gates execution\<close>

text \<open>
  C2. Whatever the connector does and whatever the form holds, \<^verbatim>\<open>query_table\<close> calls
  \<^verbatim>\<open>execute_query\<close> on a query only if \<^verbatim>\<open>validate_query\<close> accepts that same query, and
  the call follows the validation of that query directly. When the validator rejects the
  query, nothing is executed, one history record is written with \<^verbatim>\<open>success=False\<close> and the
  validator's message, and the user is shown \<^verbatim>\<open>Query failed:\<close> with that message.
\<close>

theorem execute_only_after_validation:
  fixes env cid req s
  defines "s' \<equiv> snd (query_table env cid req s)"
  shows "(\<forall>n q. Execute n q \<in> set (new_events s s') \<longrightarrow>
            fst (on_validate_query env q)
            \<and> (\<exists>pre post. new_events s s' = pre @ Validate n q # Execute n q # post))
       \<and> (\<forall>n q. Validate n q \<in> set (new_events s s') \<and> \<not> fst (on_validate_query env q) \<longrightarrow>
            executed (new_events s s') = []
            \<and> (\<exists>r. history s' = history s @ [r] \<and> qh_query r = q \<and> \<not> qh_success r
                  \<and> qh_error_message r = Some (snd (on_validate_query env q)))
            \<and> (Error, ''Query failed: '' @ snd (on_validate_query env q)) \<in> set (messages s'))"
  using query_table_cases [of env cid req s] unfolding s'_def [symmetric]
proof (elim disjE exE conjE)
  fix evs
  assume "trace s' = trace s @ evs" "\<not> list_ex is_query_event evs" "history s' = history s"
  then show ?thesis
    by (auto simp: new_events_append dest: no_query_event_mem)
next
  fix c evs
  assume a: "trace s' = trace s @ [Create 0, Connect 0, Validate 0 (query_of req c)] @ evs"
    "\<not> list_ex is_query_event evs" "\<not> fst (on_validate_query env (query_of req c))"
    "history s' = history s @
       [\<lparr>qh_user = req_user req, qh_connection = cid, qh_query = query_of req c,
         qh_success = False,
         qh_error_message = Some (snd (on_validate_query env (query_of req c)))\<rparr>]"
    "messages s' = messages s @
       [(Error, ''Query failed: '' @ snd (on_validate_query env (query_of req c)))]"
  have ne: "new_events s s' = [Create 0, Connect 0, Validate 0 (query_of req c)] @ evs"
    using a(1) by (simp add: new_events_def)
  show ?thesis
    using a(2-5) no_query_event_mem [OF a(2)] executed_no_query_event [OF a(2)]
    by (auto simp: ne)
next
  fix c evs e
  assume a: "trace s' = trace s @
       [Create 0, Connect 0, Validate 0 (query_of req c), Execute 0 (query_of req c)] @ evs"
    "\<not> list_ex is_query_event evs" "fst (on_validate_query env (query_of req c))"
  have ne: "new_events s s'
      = [Create 0, Connect 0, Validate 0 (query_of req c), Execute 0 (query_of req c)] @ evs"
    using a(1) by (simp add: new_events_def)
  have split: "new_events s s'
      = [Create 0, Connect 0] @ Validate 0 (query_of req c) # Execute 0 (query_of req c) # evs"
    by (simp add: ne)
  have ex: "\<exists>pre post. new_events s s'
      = pre @ Validate 0 (query_of req c) # Execute 0 (query_of req c) # post"
    using split by blast
  have mem: "Execute n q \<in> set (new_events s s') \<Longrightarrow> n = 0 \<and> q = query_of req c" for n q
    using no_query_event_mem [OF a(2)] by (auto simp: ne)
  have val: "Validate n q \<in> set (new_events s s') \<Longrightarrow> q = query_of req c" for n q
    using no_query_event_mem [OF a(2)] by (auto simp: ne)
  show ?thesis
    using a(3) ex mem val by blast
next
  fix c evs df e
  assume a: "trace s' = trace s @
       [Create 0, Connect 0, Validate 0 (query_of req c), Execute 0 (query_of req c)] @ evs"
    "\<not> list_ex is_query_event evs" "fst (on_validate_query env (query_of req c))"
  have ne: "new_events s s'
      = [Create 0, Connect 0, Validate 0 (query_of req c), Execute 0 (query_of req c)] @ evs"
    using a(1) by (simp add: new_events_def)
  have split: "new_events s s'
      = [Create 0, Connect 0] @ Validate 0 (query_of req c) # Execute 0 (query_of req c) # evs"
    by (simp add: ne)
  have ex: "\<exists>pre post. new_events s s'
      = pre @ Validate 0 (query_of req c) # Execute 0 (query_of req c) # post"
    using split by blast
  have mem: "Execute n q \<in> set (new_events s s') \<Longrightarrow> n = 0 \<and> q = query_of req c" for n q
    using no_query_event_mem [OF a(2)] by (auto simp: ne)
  have val: "Validate n q \<in> set (new_events s s') \<Longrightarrow> q = query_of req c" for n q
    using no_query_event_mem [OF a(2)] by (auto simp: ne)
  show ?thesis
    using a(3) ex mem val by blast
next
  fix c df json
  assume a: "trace s' = trace s @
       [Create 0, Connect 0, Validate 0 (query_of req c), Execute 0 (query_of req c),
        Disconnect 0]"
    "fst (on_validate_query env (query_of req c))"
  have ne: "new_events s s'
      = [Create 0, Connect 0, Validate 0 (query_of req c), Execute 0 (query_of req c),
         Disconnect 0]"
    using a(1) by (simp add: new_events_def)
  have split: "new_events s s'
      = [Create 0, Connect 0] @ Validate 0 (query_of req c) # Execute 0 (query_of req c)
          # [Disconnect 0]"
    by (simp add: ne)
  have ex: "\<exists>pre post. new_events s s'
      = pre @ Validate 0 (query_of req c) # Execute 0 (query_of req c) # post"
    using split by blast
  have mem: "Execute n q \<in> set (new_events s s') \<Longrightarrow> n = 0 \<and> q = query_of req c" for n q
    by (auto simp: ne)
  have val: "Validate n q \<in> set (new_events s s') \<Longrightarrow> q = query_of req c" for n q
    by (auto simp: ne)
  show ?thesis
    using a(2) ex mem val by blast
qed

theorem execute_only_after_validation_witness:
  "Execute 0 (PStr ''SELECT * FROM [t]'')
     \<in> set (new_events demo_state (snd (query_table demo_env 7 demo_select_all demo_state)))
   \<and> fst (on_validate_query demo_env (PStr ''SELECT * FROM [t]''))
   \<and> Validate 0 (PStr ''DROP TABLE x'')
       \<in> set (new_events demo_state (snd (query_table demo_env 7 demo_drop demo_state)))
   \<and> \<not> fst (on_validate_query demo_env (PStr ''DROP TABLE x''))
   \<and> executed (new_events demo_state (snd (query_table demo_env 7 demo_drop demo_state))) = []
   \<and> (Error, ''Query failed: forbidden operation: DROP'')
       \<in> set (messages (snd (query_table demo_env 7 demo_drop demo_state)))"
proof -
  have v: "on_validate_query demo_env (PStr ''SELECT * FROM [t]'') = (True, ''ok'')"
    "on_validate_query demo_env (PStr ''DROP TABLE x'') = (False, ''forbidden operation: DROP'')"
    by (simp_all add: demo_env_def validate_select_all validate_drop)
  have e: "Execute 0 (PStr ''SELECT * FROM [t]'')
     \<in> set (new_events demo_state (snd (query_table demo_env 7 demo_select_all demo_state)))"
    unfolding demo_select_all_run by (simp add: new_events_def demo_state_def)
  have d: "Validate 0 (PStr ''DROP TABLE x'')
       \<in> set (new_events demo_state (snd (query_table demo_env 7 demo_drop demo_state)))"
    unfolding demo_drop_run by (simp add: new_events_def demo_state_def)
  from execute_only_after_validation [where env = demo_env and s = demo_state and cid = 7 and req = demo_select_all] e
  have "fst (on_validate_query demo_env (PStr ''SELECT * FROM [t]''))" by blast
  moreover from execute_only_after_validation [where env = demo_env and s = demo_state and cid = 7 and req = demo_drop] d v(2)
  have "executed (new_events demo_state (snd (query_table demo_env 7 demo_drop demo_state))) = []
     \<and> (Error, ''Query failed: '' @ snd (on_validate_query demo_env (PStr ''DROP TABLE x'')))
         \<in> set (messages (snd (query_table demo_env 7 demo_drop demo_state)))"
    by (metis fst_conv)
  ultimately show ?thesis using e d v by simp
qed

section \<open>The query history\<close>

lemma other_views_keep_history:
  "history (snd (table_detail env cid tn req s)) = history s"
  "history (snd (test_connection env cid req s)) = history s"
  "history (snd (add_connection env req s)) = history s"
  "history (snd (edit_connection env cid req s)) = history s"
  by (simp_all add: table_detail_def table_detail_failed_def test_connection_def
        add_connection_def edit_connection_def render_edit_connection_def save_connection_def
        call_test_connection_raises log_def add_message_def Let_def
      split: sum.splits option.splits)

text \<open>
  What one request does to the history, whatever the connector and \<^verbatim>\<open>to_json\<close> do: it
  executes at most one query and only appends records. An execution that raised leaves one
  record, with \<^verbatim>\<open>success=False\<close> and the text of the error; an execution that returned
  leaves one record with \<^verbatim>\<open>success=True\<close> when \<^verbatim>\<open>to_json\<close> returns as well, and two
  records when \<^verbatim>\<open>to_json\<close> raises.
\<close>

lemma history_after_query_table:
  fixes env cid req s
  defines "s' \<equiv> snd (query_table env cid req s)"
  shows "(\<exists>recs. history s' = history s @ recs \<and> length recs \<le> 2)
       \<and> length (executed (new_events s s')) \<le> 1
       \<and> (\<forall>n q e. Execute n q \<in> set (new_events s s') \<and> on_execute_query env n q = Inl e \<longrightarrow>
            history s' = history s @
              [\<lparr>qh_user = req_user req, qh_connection = cid, qh_query = q,
                qh_success = False, qh_error_message = Some (exn_str e)\<rparr>])
       \<and> (\<forall>n q df json. Execute n q \<in> set (new_events s s') \<and> on_execute_query env n q = Inr df
               \<and> df_to_json env df = Inr json \<longrightarrow>
            history s' = history s @
              [\<lparr>qh_user = req_user req, qh_connection = cid, qh_query = q,
                qh_success = True, qh_error_message = None\<rparr>])
       \<and> (\<forall>n q df e. Execute n q \<in> set (new_events s s') \<and> on_execute_query env n q = Inr df
               \<and> df_to_json env df = Inl e \<longrightarrow>
            history s' = history s @
              [\<lparr>qh_user = req_user req, qh_connection = cid, qh_query = q,
                qh_success = True, qh_error_message = None\<rparr>,
               \<lparr>qh_user = req_user req, qh_connection = cid, qh_query = q,
                qh_success = False, qh_error_message = Some (exn_str e)\<rparr>])"
  using query_table_cases [of env cid req s] unfolding s'_def [symmetric]
proof (elim disjE exE conjE)
  fix evs
  assume "trace s' = trace s @ evs" "\<not> list_ex is_query_event evs" "history s' = history s"
  then show ?thesis
    by (auto simp: new_events_append executed_no_query_event dest: no_query_event_mem)
next
  fix c evs
  assume a: "trace s' = trace s @ [Create 0, Connect 0, Validate 0 (query_of req c)] @ evs"
    "\<not> list_ex is_query_event evs"
    "history s' = history s @
       [\<lparr>qh_user = req_user req, qh_connection = cid, qh_query = query_of req c,
         qh_success = False,
         qh_error_message = Some (snd (on_validate_query env (query_of req c)))\<rparr>]"
  have ne: "new_events s s' = [Create 0, Connect 0, Validate 0 (query_of req c)] @ evs"
    using a(1) by (simp add: new_events_def)
  show ?thesis
    using a(3) no_query_event_mem [OF a(2)] executed_no_query_event [OF a(2)]
    by (auto simp: ne)
next
  fix c evs e
  assume a: "trace s' = trace s @
       [Create 0, Connect 0, Validate 0 (query_of req c), Execute 0 (query_of req c)] @ evs"
    "\<not> list_ex is_query_event evs"
    "on_execute_query env 0 (query_of req c) = Inl e"
    "history s' = history s @
       [\<lparr>qh_user = req_user req, qh_connection = cid, qh_query = query_of req c,
         qh_success = False, qh_error_message = Some (exn_str e)\<rparr>]"
  have ne: "new_events s s'
      = [Create 0, Connect 0, Validate 0 (query_of req c), Execute 0 (query_of req c)] @ evs"
    using a(1) by (simp add: new_events_def)
  show ?thesis
    using a(3,4) no_query_event_mem [OF a(2)] executed_no_query_event [OF a(2)]
    by (auto simp: ne)
next
  fix c evs df e
  assume a: "trace s' = trace s @
       [Create 0, Connect 0, Validate 0 (query_of req c), Execute 0 (query_of req c)] @ evs"
    "\<not> list_ex is_query_event evs"
    "on_execute_query env 0 (query_of req c) = Inr df"
    "df_to_json env df = Inl e"
    "history s' = history s @
       [\<lparr>qh_user = req_user req, qh_connection = cid, qh_query = query_of req c,
         qh_success = True, qh_error_message = None\<rparr>,
        \<lparr>qh_user = req_user req, qh_connection = cid, qh_query = query_of req c,
         qh_success = False, qh_error_message = Some (exn_str e)\<rparr>]"
  have ne: "new_events s s'
      = [Create 0, Connect 0, Validate 0 (query_of req c), Execute 0 (query_of req c)] @ evs"
    using a(1) by (simp add: new_events_def)
  show ?thesis
    using a(3,4,5) no_query_event_mem [OF a(2)] executed_no_query_event [OF a(2)]
    by (auto simp: ne)
next
  fix c df json
  assume a: "trace s' = trace s @
       [Create 0, Connect 0, Validate 0 (query_of req c), Execute 0 (query_of req c),
        Disconnect 0]"
    "on_execute_query env 0 (query_of req c) = Inr df"
    "df_to_json env df = Inr json"
    "history s' = history s @
       [\<lparr>qh_user = req_user req, qh_connection = cid, qh_query = query_of req c,
         qh_success = True, qh_error_message = None\<rparr>]"
  have ne: "new_events s s'
      = [Create 0, Connect 0, Validate 0 (query_of req c), Execute 0 (query_of req c),
         Disconnect 0]"
    using a(1) by (simp add: new_events_def)
  show ?thesis
    using a(2,3,4) by (auto simp: ne)
qed

text \<open>
  C6. Every execution attempt is to write exactly one history record, with
  \<^verbatim>\<open>success=True\<close> when the execution succeeds. The code writes a second record when a step
  after the execution raises: the record of line 198 is written inside the \<^verbatim>\<open>try\<close>, and
  the handler of line 235 writes another. For the query that selects \<^verbatim>\<open>id\<close> twice the
  execution returns, \<^verbatim>\<open>to_json\<close> refuses the repeated label at line 216, and the one
  execution leaves two records, the second saying that the query failed; the user is told
  so too, and the connector is not disconnected. No record is changed or removed.
\<close>

theorem second_history_record_after_success:
  "executed (new_events demo_state (snd (query_table demo_env 7 demo_select_twice demo_state)))
     = [PStr ''SELECT id, id FROM t'']
   \<and> on_execute_query demo_env 0 (PStr ''SELECT id, id FROM t'') = Inr demo_twice
   \<and> history (snd (query_table demo_env 7 demo_select_twice demo_state))
       = [\<lparr>qh_user = ''ana'', qh_connection = 7, qh_query = PStr ''SELECT id, id FROM t'',
            qh_success = True, qh_error_message = None\<rparr>,
          \<lparr>qh_user = ''ana'', qh_connection = 7, qh_query = PStr ''SELECT id, id FROM t'',
            qh_success = False,
            qh_error_message = Some columns_must_be_unique\<rparr>]
   \<and> messages (snd (query_table demo_env 7 demo_select_twice demo_state))
       = [(Error, ''Query failed: '' @ columns_must_be_unique)]
   \<and> trace (snd (query_table demo_env 7 demo_select_twice demo_state))
       = [Create 0, Connect 0, Validate 0 (PStr ''SELECT id, id FROM t''),
          Execute 0 (PStr ''SELECT id, id FROM t''), Create 1, Connect 1, GetTables 1,
          Disconnect 1]"
  unfolding demo_select_twice_run by (simp add: new_events_def demo_state_def demo_env_def)

section \<open>Downloading a result\<close>

text \<open>
  What the two views do by themselves, whatever the codec: when \<^verbatim>\<open>query_table\<close> shows a
  result, the session holds, under the key of the connection, the document that \<^verbatim>\<open>to_json\<close>
  made of the full result; and \<^verbatim>\<open>download_query_result\<close> writes the table that
  \<^verbatim>\<open>read_json\<close> makes of the document it finds there. So the file holds the columns and
  rows of the result, in order, whenever \<^verbatim>\<open>read_json\<close> gives back the table that
  \<^verbatim>\<open>to_json\<close> was given.
\<close>

lemma query_table_stores_result:
  assumes "fst (query_table env cid req s) = Inr (RenderQueryResult c rd q shown)"
  shows "\<exists>df json. on_execute_query env 0 q = Inr df \<and> df_to_json env df = Inr json
           \<and> rd = make_result_data df
           \<and> map_of (session (snd (query_table env cid req s)))
                 (''query_result_'' @ str_of_int cid)
               = Some \<lparr>se_query = q, se_data = json, se_connection_name = conn_name c\<rparr>"
  using assms
  by (auto simp: query_table_def require_http_methods_def query_table_body_def run_query_def
        run_built_query_def execute_validated_def query_form_def log_def Let_def
        AList.update_conv'
      split: if_splits sum.splits option.splits prod.splits)

lemma download_returns_stored_table:
  assumes "req_method req = ''POST''"
    and "map_of (session s) (''query_result_'' @ str_of_int cid) = Some entry"
    and "df_read_json env (se_data entry) = Inr df"
  shows "download_query_result env cid post req s =
           (Inr (if dict_get_default post ''format'' (PStr ''csv'') = PStr ''excel'' then
                   ExcelFile (se_connection_name entry @ ''_query_result.xlsx'') ''Query Result''
                     (df_columns df) (df_rows df)
                 else
                   CsvFile (se_connection_name entry @ ''_query_result.csv'')
                     (df_columns df) (df_rows df)), s)"
  using assms by (simp add: download_query_result_def Let_def)

lemma views_pass_result_through:
  assumes shown: "fst (query_table env cid req s) = Inr (RenderQueryResult c rd q shown)"
    and post: "req_method req' = ''POST''"
    and codec: "\<And>df json. df_to_json env df = Inr json \<Longrightarrow> df_read_json env json = Inr df"
  shows "\<exists>df. on_execute_query env 0 q = Inr df
           \<and> download_query_result env cid [] req' (snd (query_table env cid req s))
               = (Inr (CsvFile (conn_name c @ ''_query_result.csv'') (df_columns df) (df_rows df)),
                  snd (query_table env cid req s))"
proof -
  from query_table_stores_result [OF shown]
  obtain df json where df: "on_execute_query env 0 q = Inr df" "df_to_json env df = Inr json"
    and stored: "map_of (session (snd (query_table env cid req s)))
                   (''query_result_'' @ str_of_int cid)
                 = Some \<lparr>se_query = q, se_data = json, se_connection_name = conn_name c\<rparr>"
    by blast
  from codec [OF df(2)]
  have "df_read_json env
          (se_data \<lparr>se_query = q, se_data = json, se_connection_name = conn_name c\<rparr>) = Inr df"
    by simp
  from download_returns_stored_table [OF post stored this, of "[]"] df(1)
  show ?thesis by (simp add: dict_get_default_def)
qed

subsection \<open>With the codec of pandas\<close>

lemma demo_table_read_json:
  "pandas_read_json [(''id'', [(''0'', JNumber 1), (''1'', JNumber 2)]),
                     (''name'', [(''0'', JString ''a''), (''1'', JNull)])] = Inr demo_table"
  by (simp add: pandas_read_json_def read_cell_def numeric_column_def demo_table_def)

lemma demo_shops_read_json:
  "pandas_read_json [(''code'', [(''0'', JString ''007''), (''1'', JString ''012'')]),
                     (''city'', [(''0'', JString ''Oslo''), (''1'', JString ''Bergen'')])]
     = Inr \<lparr>df_columns = [''code'', ''city''],
            df_rows = [[PInt 7, PStr ''Oslo''], [PInt 12, PStr ''Bergen'']]\<rparr>"
  by (simp add: pandas_read_json_def read_cell_def numeric_column_def is_digit_def
        decimal_value_def)

lemma validate_select_shops: "validate_query ''SELECT code, city FROM shops'' = (True, ''ok'')"
  by (simp add: validate_query_def leading_keyword_def is_space_def upper_char_def
        multiple_statements_def)

lemma demo_select_shops_run:
  "query_table demo_env 7 demo_select_shops demo_state =
     (Inr (RenderQueryResult demo_connection (make_result_data demo_shops)
             (PStr ''SELECT code, city FROM shops'') True),
      demo_state
        \<lparr>history := [\<lparr>qh_user = ''ana'', qh_connection = 7,
                       qh_query = PStr ''SELECT code, city FROM shops'', qh_success = True,
                       qh_error_message = None\<rparr>],
         session := [(''query_result_7'',
                      \<lparr>se_query = PStr ''SELECT code, city FROM shops'',
                       se_data = [(''code'', [(''0'', JString ''007''), (''1'', JString ''012'')]),
                                  (''city'', [(''0'', JString ''Oslo''), (''1'', JString ''Bergen'')])],
                       se_connection_name = ''shop''\<rparr>)],
         trace := [Create 0, Connect 0, Validate 0 (PStr ''SELECT code, city FROM shops''),
                   Execute 0 (PStr ''SELECT code, city FROM shops''), Disconnect 0]\<rparr>)"
proof -
  have k: "str_of_int 7 = ''7''" by code_simp
  show ?thesis
    by (simp add: view_defs demo_defs validate_select_shops demo_shops_to_json k)
qed

text \<open>
  C5. The table downloaded is to have the column order and the row values of the result
  that was shown, for every result. The views store the result with \<^verbatim>\<open>to_json()\<close> and read
  it back with \<^verbatim>\<open>read_json\<close>, both with their defaults, and \<^verbatim>\<open>read_json\<close> infers the types
  of the columns anew. For the shops, a well-formed result whose codes are the texts
  \<^verbatim>\<open>007\<close> and \<^verbatim>\<open>012\<close>, the query succeeds and shows the result, and the CSV file as well
  as the spreadsheet then hold the numbers 7 and 12 in place of the codes: all rows are there,
  in order, but not with their values. (A result with a repeated column label is not stored
  at all, since \<^verbatim>\<open>to_json()\<close> raises, as shown for the history.)
\<close>

theorem download_changes_numeric_text:
  "well_formed demo_shops
   \<and> df_rows demo_shops = [[PStr ''007'', PStr ''Oslo''], [PStr ''012'', PStr ''Bergen'']]
   \<and> on_execute_query demo_env 0 (PStr ''SELECT code, city FROM shops'') = Inr demo_shops
   \<and> fst (query_table demo_env 7 demo_select_shops demo_state)
       = Inr (RenderQueryResult demo_connection (make_result_data demo_shops)
                (PStr ''SELECT code, city FROM shops'') True)
   \<and> fst (download_query_result demo_env 7 [(''format'', PStr ''csv'')]
              (demo_request ''POST'' False [])
              (snd (query_table demo_env 7 demo_select_shops demo_state)))
       = Inr (CsvFile ''shop_query_result.csv'' [''code'', ''city'']
                [[PInt 7, PStr ''Oslo''], [PInt 12, PStr ''Bergen'']])
   \<and> fst (download_query_result demo_env 7 [(''format'', PStr ''excel'')]
              (demo_request ''POST'' False [])
              (snd (query_table demo_env 7 demo_select_shops demo_state)))
       = Inr (ExcelFile ''shop_query_result.xlsx'' ''Query Result'' [''code'', ''city'']
                [[PInt 7, PStr ''Oslo''], [PInt 12, PStr ''Bergen'']])"
proof -
  have k: "str_of_int 7 = ''7''" by code_simp
  have r: "df_read_json demo_env = pandas_read_json" by (simp add: demo_env_def)
  have w: "well_formed demo_shops" "df_rows demo_shops
      = [[PStr ''007'', PStr ''Oslo''], [PStr ''012'', PStr ''Bergen'']]"
    by (simp_all add: well_formed_def demo_shops_def)
  have x: "on_execute_query demo_env 0 (PStr ''SELECT code, city FROM shops'') = Inr demo_shops"
    by (simp add: demo_env_def)
  show ?thesis
    unfolding demo_select_shops_run
    by (simp add: w x download_query_result_def demo_request_def demo_state_def k r
          demo_shops_read_json dict_get_default_def)
qed

section \<open>Releasing the connector\<close>

text \<open>
  C7. After a successful \<^verbatim>\<open>connect()\<close> a handler is to call \<^verbatim>\<open>disconnect()\<close> before it
  returns, on every path, also when a later schema or query operation raises. The views call
  \<^verbatim>\<open>disconnect()\<close> on the path where nothing goes wrong only. In \<^verbatim>\<open>table_detail\<close>, when
  \<^verbatim>\<open>get_table_info\<close> raises for an unknown table, the handler of line 141 redirects and the
  connector opened at line 124 is never disconnected. In \<^verbatim>\<open>query_table\<close>, when the validator
  rejects the query, line 192 raises past the \<^verbatim>\<open>disconnect()\<close> of line 220: the only
  connector disconnected is the second one, made at line 252 for the dropdown.
\<close>

theorem connector_not_disconnected:
  "on_connect demo_env 0 = Inr True
   \<and> on_get_table_info demo_env 0 ''missing'' = Inl (Raised SchemaError ''no such table: missing'')
   \<and> table_detail demo_env 7 ''missing'' (demo_request ''GET'' False []) demo_state
       = (Inr (Redirect ''connection_detail'' [7]),
          demo_state
            \<lparr>messages := [(Error, ''Error fetching table details: no such table: missing'')],
             trace := [Create 0, Connect 0, GetTableInfo 0 ''missing'']\<rparr>)
   \<and> Disconnect 0
       \<notin> set (trace (snd (table_detail demo_env 7 ''missing'' (demo_request ''GET'' False [])
                            demo_state)))
   \<and> trace (snd (query_table demo_env 7 demo_drop demo_state))
       = [Create 0, Connect 0, Validate 0 (PStr ''DROP TABLE x''), Create 1, Connect 1,
          GetTables 1, Disconnect 1]
   \<and> Disconnect 0 \<notin> set (trace (snd (query_table demo_env 7 demo_drop demo_state)))"
proof -
  have t: "table_detail demo_env 7 ''missing'' (demo_request ''GET'' False []) demo_state
       = (Inr (Redirect ''connection_detail'' [7]),
          demo_state
            \<lparr>messages := [(Error, ''Error fetching table details: no such table: missing'')],
             trace := [Create 0, Connect 0, GetTableInfo 0 ''missing'']\<rparr>)"
    by (simp add: table_detail_def table_detail_failed_def get_object_or_404_def log_def
          add_message_def demo_defs)
  show ?thesis
    unfolding t demo_drop_run by (simp add: demo_env_def)
qed

section \<open>\<^verbatim>\<open>add_connection\<close> reads a variable it has not assigned\<close>

text \<open>
  C10. For every \<^verbatim>\<open>GET\<close> request, and every \<^verbatim>\<open>POST\<close> whose form is invalid,
  \<^verbatim>\<open>add_connection\<close> raises \<^verbatim>\<open>UnboundLocalError\<close>, which is a \<^verbatim>\<open>NameError\<close>, for the
  local \<^verbatim>\<open>connection\<close>; nothing is rendered and nothing changes.
\<close>

theorem add_connection_unbound_local:
  "req_method req = ''GET'' \<or> (req_method req = ''POST'' \<and> \<not> form_valid req) \<Longrightarrow>
     add_connection env req s = (Inl (unbound_local ''connection''), s)
   \<and> isinstance (unbound_local ''connection'') NameError"
  by (auto simp: add_connection_def render_edit_connection_def isinstance_def unbound_local_def)

theorem add_connection_unbound_local_witness:
  "req_method (demo_request ''GET'' False []) = ''GET''
   \<and> add_connection demo_env (demo_request ''GET'' False []) demo_state
       = (Inl (unbound_local ''connection''), demo_state)
   \<and> req_method (demo_request ''POST'' False []) = ''POST''
   \<and> \<not> form_valid (demo_request ''POST'' False [])
   \<and> add_connection demo_env (demo_request ''POST'' False []) demo_state
       = (Inl (unbound_local ''connection''), demo_state)
   \<and> isinstance (unbound_local ''connection'') NameError
   \<and> exn_class_of (unbound_local ''connection'') = UnboundLocalError"
proof -
  have g: "req_method (demo_request ''GET'' False []) = ''GET''"
    by (simp add: demo_request_def)
  have p: "req_method (demo_request ''POST'' False []) = ''POST''"
    "\<not> form_valid (demo_request ''POST'' False [])"
    by (simp_all add: demo_request_def)
  from g have 1: "add_connection demo_env (demo_request ''GET'' False []) demo_state
       = (Inl (unbound_local ''connection''), demo_state)
     \<and> isinstance (unbound_local ''connection'') NameError"
    by (intro add_connection_unbound_local) simp
  from p have 2: "add_connection demo_env (demo_request ''POST'' False []) demo_state
       = (Inl (unbound_local ''connection''), demo_state)
     \<and> isinstance (unbound_local ''connection'') NameError"
    by (intro add_connection_unbound_local) simp
  show ?thesis using g p 1 2 by (simp add: unbound_local_def)
qed

section \<open>The connection test always fails\<close>

text \<open>
  C9. At run time the name \<^verbatim>\<open>test_connection\<close> is the view defined at line 76, not the
  function imported at line 17. Whatever the imported function would answer, the call
  \<^verbatim>\<open>test_connection(connection)\<close> raises \<^verbatim>\<open>TypeError\<close> for the missing argument. The
  three views catch it and report \<^verbatim>\<open>Error testing connection\<close>: the view
  \<^verbatim>\<open>test_connection\<close> never reports success, and \<^verbatim>\<open>add_connection\<close> and
  \<^verbatim>\<open>edit_connection\<close> never save a connection and never take the redirect of their
  success branch.
\<close>

theorem test_connection_is_rebound:
  "lookup_global ''test_connection'' = Some (DefinedAt 76)
   \<and> call_test_connection env c = Inl (Raised TypeError missing_argument)
   \<and> (\<forall>stored. get_object_or_404 s cid (req_user req) = Inr stored \<longrightarrow>
        test_connection env cid req s
          = (Inr (Redirect ''connection_detail'' [cid]),
             add_message Error (''Error testing connection: '' @ missing_argument) s))
   \<and> (req_method req = ''POST'' \<and> form_valid req \<longrightarrow>
        add_connection env req s
          = (Inr (RenderEditConnection ((form_instance req)\<lparr>conn_user := req_user req\<rparr>)),
             add_message Error (''Error testing connection: '' @ missing_argument) s))
   \<and> (\<forall>stored. get_object_or_404 s cid (req_user req) = Inr stored \<and> req_method req = ''POST''
          \<and> form_valid req \<longrightarrow>
        edit_connection env cid req s
          = (Inr ReturnsNone,
             add_message Error (''Error testing connection: '' @ missing_argument) s))
   \<and> connections (snd (test_connection env cid req s)) = connections s
   \<and> connections (snd (add_connection env req s)) = connections s
   \<and> connections (snd (edit_connection env cid req s)) = connections s
   \<and> fst (add_connection env req s) \<noteq> Inr (Redirect ''dashboard'' [])
   \<and> fst (edit_connection env cid req s) \<noteq> Inr (Redirect ''connection_detail'' [cid])"
  by (auto simp: test_connection_def add_connection_def edit_connection_def
        call_test_connection_raises lookup_test_connection render_edit_connection_def
        add_message_def Let_def split: sum.splits)

theorem test_connection_is_rebound_witness:
  "on_test_connection demo_env demo_connection = Inr (True, ''Connection successful'')
   \<and> call_test_connection demo_env demo_connection = Inl (Raised TypeError missing_argument)
   \<and> get_object_or_404 demo_state 7 (req_user (demo_request ''POST'' True [])) = Inr demo_connection
   \<and> req_method (demo_request ''POST'' True []) = ''POST''
   \<and> form_valid (demo_request ''POST'' True [])
   \<and> test_connection demo_env 7 (demo_request ''POST'' True []) demo_state
       = (Inr (Redirect ''connection_detail'' [7]),
          add_message Error (''Error testing connection: '' @ missing_argument) demo_state)
   \<and> add_connection demo_env (demo_request ''POST'' True []) demo_state
       = (Inr (RenderEditConnection (demo_connection\<lparr>conn_name := ''shop2''\<rparr>)),
          add_message Error (''Error testing connection: '' @ missing_argument) demo_state)
   \<and> edit_connection demo_env 7 (demo_request ''POST'' True []) demo_state
       = (Inr ReturnsNone,
          add_message Error (''Error testing connection: '' @ missing_argument) demo_state)"
proof -
  have f: "get_object_or_404 demo_state 7 (req_user (demo_request ''POST'' True []))
             = Inr demo_connection"
    by (simp add: get_object_or_404_def demo_defs)
  have r: "req_method (demo_request ''POST'' True []) = ''POST''"
    "form_valid (demo_request ''POST'' True [])"
    "(form_instance (demo_request ''POST'' True []))
        \<lparr>conn_user := req_user (demo_request ''POST'' True [])\<rparr>
       = demo_connection\<lparr>conn_name := ''shop2''\<rparr>"
    by (simp_all add: demo_request_def demo_connection_def)
  have o: "on_test_connection demo_env demo_connection = Inr (True, ''Connection successful'')"
    by (simp add: demo_env_def)
  show ?thesis
    using test_connection_is_rebound
            [where env = demo_env and c = demo_connection and s = demo_state and cid = 7
               and req = "demo_request ''POST'' True []"]
          f r o
    by simp
qed

end
